theory Spec2Isabelle
  imports Main "HOL-Library.Sublist"
begin

section \<open>JavaScript values\<close>

text \<open>
  A value thrown by a rejected promise or a \<^verbatim>\<open>throw\<close>: either an \<^verbatim>\<open>Error\<close>
  instance, of which the code reads only \<^verbatim>\<open>message\<close>, or any other value.
\<close>

datatype js_exn = Error string | NonError

text \<open>\<^verbatim>\<open>error instanceof Error ? error.message : "Unknown error"\<close>\<close>

definition errorMessage :: "js_exn \<Rightarrow> string" where
  "errorMessage error = (case error of Error m \<Rightarrow> m | NonError \<Rightarrow> ''Unknown error'')"

text \<open>\<^verbatim>\<open>s || d\<close> on strings: the empty string is falsy.\<close>

definition or_else :: "string \<Rightarrow> string \<Rightarrow> string" where
  "or_else s d = (if s = [] then d else s)"

text \<open>\<^verbatim>\<open>v || d\<close> where \<^verbatim>\<open>v\<close> is a string or \<^verbatim>\<open>undefined\<close>.\<close>

definition opt_or_else :: "string option \<Rightarrow> string \<Rightarrow> string" where
  "opt_or_else v d = (case v of None \<Rightarrow> d | Some s \<Rightarrow> or_else s d)"

text \<open>Truthiness of a string that may be \<^verbatim>\<open>null\<close> or \<^verbatim>\<open>undefined\<close>.\<close>

definition truthy :: "string option \<Rightarrow> bool" where
  "truthy v = (case v of None \<Rightarrow> False | Some s \<Rightarrow> s \<noteq> [])"

text \<open>Decimal digits of a natural number, as \<^verbatim>\<open>Number.prototype.toString\<close> prints them.\<close>

definition digit :: "nat \<Rightarrow> char" where
  "digit d = ''0123456789'' ! d"

fun nat_toString :: "nat \<Rightarrow> string" where
  "nat_toString n =
     (if n < 10 then [digit n] else nat_toString (n div 10) @ [digit (n mod 10)])"

declare nat_toString.simps [simp del]

text \<open>
  \<^verbatim>\<open>String(v)\<close> for a value of type \<^verbatim>\<open>number | undefined\<close> holding an integer:
  \<^verbatim>\<open>String(undefined)\<close> is the nine-letter string \<^verbatim>\<open>"undefined"\<close>.
\<close>

definition String_of :: "int option \<Rightarrow> string" where
  "String_of v =
     (case v of
        None \<Rightarrow> ''undefined''
      | Some n \<Rightarrow> (if n < 0 then ''-'' @ nat_toString (nat (- n)) else nat_toString (nat n)))"

section \<open>Data model\<close>

text \<open>
  \<^verbatim>\<open>InstagramPost\<close> and its carousel children, with the fields the sync code reads.
  \<^verbatim>\<open>children\<close> is \<^verbatim>\<open>post.children?.data\<close>: \<open>None\<close> when either level is missing.
\<close>

record InstagramChild =
  child_id :: string
  child_media_type :: string
  child_media_url :: string

record InstagramPost =
  post_id :: string
  media_type :: string
  media_url :: string
  caption :: "string option"
  like_count :: "int option"
  comments_count :: "int option"
  children :: "InstagramChild list option"

text \<open>The error envelope of the Graph API; the code reads \<^verbatim>\<open>error.message\<close>.\<close>

record IgError =
  ig_message :: "string option"

text \<open>\<^verbatim>\<open>igData\<close>: the media response, and \<^verbatim>\<open>userData\<close>: the profile response.\<close>

record IgMedia =
  media_error :: "IgError option"
  media_data :: "InstagramPost list option"

record IgProfile =
  profile_error :: "IgError option"
  profile_username :: string
  profile_name :: string

text \<open>The \<^verbatim>\<open>socialAccount\<close> row; \<^verbatim>\<open>expiresAt\<close> in epoch milliseconds.\<close>

record Account =
  account_id :: string
  account_username :: "string option"
  accessToken :: string
  expiresAt :: "int option"

text \<open>
  Store responses. A user error is kept as its \<^verbatim>\<open>message\<close>. A response is \<open>None\<close>
  when \<^verbatim>\<open>data\<close> or the payload under it is missing, which the code reads through
  \<^verbatim>\<open>?.\<close> in every place. \<open>files\<close> holds the \<^verbatim>\<open>id\<close> of each returned file.
\<close>

type_synonym UserError = string

record FileCreatePayload =
  files :: "string list option"
  file_userErrors :: "UserError list"

type_synonym FileCreateResponse = "FileCreatePayload option"

record StagedTarget =
  target_url :: string
  resourceUrl :: string
  parameters :: "(string \<times> string) list"

record MetaobjectUpsertPayload =
  metaobject_id :: "string option"
  upsert_userErrors :: "UserError list"

type_synonym MetaobjectUpsertResponse = "MetaobjectUpsertPayload option"

record Metaobject =
  mo_id :: string
  mo_handle :: string
  mo_fields :: "(string \<times> string) list"

text \<open>An enumerated node: its \<^verbatim>\<open>id\<close> and its \<^verbatim>\<open>handle\<close> (records) or \<^verbatim>\<open>alt\<close> (files).\<close>

type_synonym Edge = "string \<times> string option"

record HttpResponse =
  ok :: bool
  statusText :: string
  byteLength :: nat

text \<open>What \<^verbatim>\<open>getExistingPost\<close> returns for a record that exists.\<close>

record ExistingPost =
  existing_metaobjectId :: string
  existing_fileIds :: "string list"
  existing_handle :: string

text \<open>The object \<^verbatim>\<open>action\<close> returns, one constructor for each \<^verbatim>\<open>return\<close>.\<close>

datatype ActionResult =
    NoAccount
  | TokenExpired
  | InstagramApiError string IgError
  | NoPostsFound nat
  | Synced string string

section \<open>The outside world\<close>

text \<open>
  Every request that leaves the process is recorded, with the reply it got, in a trace.
  \<open>UploadMediaFile\<close> records one completed call of \<^verbatim>\<open>uploadMediaFile\<close> with its result.
\<close>

datatype event =
    DbFindAccount string "js_exn + Account option"
  | DbUpdateUsername string string "js_exn + unit"
  | IgFetchMedia string "js_exn + IgMedia"
  | IgFetchProfile string "js_exn + IgProfile"
  | HttpGet string "js_exn + HttpResponse"
  | HttpPostForm string "(string \<times> string) list" string "js_exn + HttpResponse"
  | StagedUploadsCreate string string "js_exn + StagedTarget list"
  | FileCreate string string string "js_exn + FileCreateResponse"
  | MetaobjectUpsert string string "(string \<times> string) list" "js_exn + MetaobjectUpsertResponse"
  | MetaobjectByHandle string string "js_exn + Metaobject option"
  | MetaobjectsQuery string nat "js_exn + Edge list"
  | MetaobjectDelete string "js_exn + unit"
  | FilesQuery nat string "js_exn + Edge list"
  | FileDelete "string list" "js_exn + unit"
  | UploadMediaFile string string string FileCreateResponse

text \<open>
  The collaborators: database, Graph API, HTTP, the store's GraphQL endpoint, and the
  \<^verbatim>\<open>JSON\<close> built-ins at the types the code uses them. Each answers a request in a world
  \<open>'w\<close> with a reply (or a rejection) and the next world. \<open>ENCRYPTION_KEY\<close> is
  \<^verbatim>\<open>process.env.ENCRYPTION_KEY\<close>, and \<open>crypto_decipher\<close> is Node's AES-256-GCM decipher
  (\<^verbatim>\<open>createDecipheriv\<close>, \<^verbatim>\<open>setAuthTag\<close>, \<^verbatim>\<open>update\<close>, \<^verbatim>\<open>final\<close>) from the key, the IV, the
  authentication tag and the ciphertext, all in hex, to the plaintext or to what it throws.
\<close>

record 'w env =
  db_findAccount :: "string \<Rightarrow> 'w \<Rightarrow> (js_exn + Account option) \<times> 'w"
  db_updateUsername :: "string \<Rightarrow> string \<Rightarrow> 'w \<Rightarrow> (js_exn + unit) \<times> 'w"
  ig_fetchMedia :: "string \<Rightarrow> 'w \<Rightarrow> (js_exn + IgMedia) \<times> 'w"
  ig_fetchProfile :: "string \<Rightarrow> 'w \<Rightarrow> (js_exn + IgProfile) \<times> 'w"
  http_get :: "string \<Rightarrow> 'w \<Rightarrow> (js_exn + HttpResponse) \<times> 'w"
  http_postForm ::
    "string \<Rightarrow> (string \<times> string) list \<Rightarrow> string \<Rightarrow> 'w \<Rightarrow> (js_exn + HttpResponse) \<times> 'w"
  gql_stagedUploadsCreate ::
    "string \<Rightarrow> string \<Rightarrow> 'w \<Rightarrow> (js_exn + StagedTarget list) \<times> 'w"
  gql_fileCreate ::
    "string \<Rightarrow> string \<Rightarrow> string \<Rightarrow> 'w \<Rightarrow> (js_exn + FileCreateResponse) \<times> 'w"
  gql_metaobjectUpsert ::
    "string \<Rightarrow> string \<Rightarrow> (string \<times> string) list \<Rightarrow> 'w
       \<Rightarrow> (js_exn + MetaobjectUpsertResponse) \<times> 'w"
  gql_metaobjectByHandle ::
    "string \<Rightarrow> string \<Rightarrow> 'w \<Rightarrow> (js_exn + Metaobject option) \<times> 'w"
  gql_metaobjects :: "string \<Rightarrow> nat \<Rightarrow> 'w \<Rightarrow> (js_exn + Edge list) \<times> 'w"
  gql_metaobjectDelete :: "string \<Rightarrow> 'w \<Rightarrow> (js_exn + unit) \<times> 'w"
  gql_files :: "nat \<Rightarrow> string \<Rightarrow> 'w \<Rightarrow> (js_exn + Edge list) \<times> 'w"
  gql_fileDelete :: "string list \<Rightarrow> 'w \<Rightarrow> (js_exn + unit) \<times> 'w"
  JSON_stringify_post :: "InstagramPost \<Rightarrow> string"
  JSON_stringify_feed :: "IgMedia \<Rightarrow> string"
  JSON_stringify_ids :: "string list \<Rightarrow> string"
  JSON_parse_ids :: "string \<Rightarrow> js_exn + string list"
  ENCRYPTION_KEY :: "string option"
  crypto_decipher :: "string \<Rightarrow> string \<Rightarrow> string \<Rightarrow> string \<Rightarrow> js_exn + string"

record 'w state =
  trace :: "event list"
  world :: 'w

type_synonym ('a, 'w) io = "'w state \<Rightarrow> (js_exn + 'a) \<times> 'w state"

text \<open>A value, a throw, \<^verbatim>\<open>await\<close> followed by the rest, and \<^verbatim>\<open>try { } catch { }\<close>.\<close>

definition resolve :: "'a \<Rightarrow> ('a, 'w) io" where
  "resolve x = (\<lambda>s. (Inr x, s))"

definition reject :: "js_exn \<Rightarrow> ('a, 'w) io" where
  "reject e = (\<lambda>s. (Inl e, s))"

definition await :: "('a, 'w) io \<Rightarrow> ('a \<Rightarrow> ('b, 'w) io) \<Rightarrow> ('b, 'w) io" where
  "await m f = (\<lambda>s. case m s of (Inl e, s') \<Rightarrow> (Inl e, s') | (Inr x, s') \<Rightarrow> f x s')"

definition try_catch :: "('a, 'w) io \<Rightarrow> (js_exn \<Rightarrow> ('a, 'w) io) \<Rightarrow> ('a, 'w) io" where
  "try_catch m h = (\<lambda>s. case m s of (Inl e, s') \<Rightarrow> h e s' | (Inr x, s') \<Rightarrow> (Inr x, s'))"

text \<open>One request to a collaborator: ask it in the current world, record request and reply.\<close>

definition request ::
  "('w \<Rightarrow> (js_exn + 'a) \<times> 'w) \<Rightarrow> ((js_exn + 'a) \<Rightarrow> event) \<Rightarrow> ('a, 'w) io" where
  "request ask ev =
     (\<lambda>s. case ask (world s) of
            (r, w') \<Rightarrow> (r, \<lparr>trace = trace s @ [ev r], world = w'\<rparr>))"

text \<open>Record a completed call without asking anybody.\<close>

definition record_event :: "event \<Rightarrow> (unit, 'w) io" where
  "record_event e = (\<lambda>s. (Inr (), s\<lparr>trace := trace s @ [e]\<rparr>))"

section \<open>instagram-sync.server.ts\<close>

definition createShopifyFile ::
  "'w env \<Rightarrow> string \<Rightarrow> string \<Rightarrow> string \<Rightarrow> (FileCreateResponse, 'w) io" where
  "createShopifyFile env mediaUrl alt contentType =
     request (gql_fileCreate env alt contentType mediaUrl) (FileCreate alt contentType mediaUrl)"

text \<open>The object both \<^verbatim>\<open>catch\<close> blocks build: no files, one user error with the message.\<close>

definition caught :: "js_exn \<Rightarrow> FileCreateResponse" where
  "caught error = Some \<lparr>files = Some [], file_userErrors = [errorMessage error]\<rparr>"

text \<open>
  The downloaded blob is kept as its byte length (part of the reply to the download);
  the form carries the staged parameters and the file part named \<^verbatim>\<open>${alt}.mp4\<close>.
\<close>

definition uploadVideoWithStaging ::
  "'w env \<Rightarrow> string \<Rightarrow> string \<Rightarrow> (FileCreateResponse, 'w) io" where
  "uploadVideoWithStaging env videoUrl alt =
     try_catch
       (await (request (http_get env videoUrl) (HttpGet videoUrl)) (\<lambda>videoResponse.
        if \<not> ok videoResponse
        then reject (Error (''Failed to download video: '' @ statusText videoResponse))
        else
          let fileSize = byteLength videoResponse;
              filename = alt @ ''.mp4''
          in
          await (request (gql_stagedUploadsCreate env filename (nat_toString fileSize))
                   (StagedUploadsCreate filename (nat_toString fileSize))) (\<lambda>stagedTargets.
          case stagedTargets of
            [] \<Rightarrow> reject (Error ''Failed to create staged upload'')
          | stagedTarget # _ \<Rightarrow>
              await (request
                       (http_postForm env (target_url stagedTarget) (parameters stagedTarget) filename)
                       (HttpPostForm (target_url stagedTarget) (parameters stagedTarget) filename))
                (\<lambda>uploadResponse.
              if \<not> ok uploadResponse
              then reject (Error (''Failed to upload to staged target: '' @ statusText uploadResponse))
              else createShopifyFile env (resourceUrl stagedTarget) alt ''VIDEO''))))
       (\<lambda>error. resolve (caught error))"

definition uploadMediaFile ::
  "'w env \<Rightarrow> string \<Rightarrow> string \<Rightarrow> string \<Rightarrow> (FileCreateResponse, 'w) io" where
  "uploadMediaFile env mediaUrl mediaType alt =
     await
       (try_catch
          (let isVideo = (mediaType = ''VIDEO'') in
           if isVideo then uploadVideoWithStaging env mediaUrl alt
           else createShopifyFile env mediaUrl alt ''IMAGE'')
          (\<lambda>error. resolve (caught error)))
       (\<lambda>result.
          await (record_event (UploadMediaFile mediaUrl mediaType alt result)) (\<lambda>_.
          resolve result))"

definition post_fields :: "'w env \<Rightarrow> InstagramPost \<Rightarrow> string list \<Rightarrow> (string \<times> string) list" where
  "post_fields env post fileIds =
     [(''data'', JSON_stringify_post env post),
      (''images'', JSON_stringify_ids env fileIds),
      (''caption'', opt_or_else (caption post) ''No caption''),
      (''likes'', or_else (String_of (like_count post)) ''0''),
      (''comments'', or_else (String_of (comments_count post)) ''0'')]"

definition upsertPostMetaobject ::
  "'w env \<Rightarrow> InstagramPost \<Rightarrow> string list \<Rightarrow> string \<Rightarrow> (MetaobjectUpsertResponse, 'w) io" where
  "upsertPostMetaobject env post fileIds username =
     (let postHandle = username @ ''-post-'' @ post_id post in
      request
        (gql_metaobjectUpsert env ''nn_instagram_post'' postHandle (post_fields env post fileIds))
        (MetaobjectUpsert ''nn_instagram_post'' postHandle (post_fields env post fileIds)))"

definition list_fields ::
  "'w env \<Rightarrow> IgMedia \<Rightarrow> string list \<Rightarrow> string \<Rightarrow> string \<Rightarrow> (string \<times> string) list" where
  "list_fields env igData postObjectIds username displayName =
     [(''data'', JSON_stringify_feed env igData),
      (''posts'', JSON_stringify_ids env postObjectIds),
      (''username'', or_else username ''instagram_user''),
      (''name'', or_else displayName ''Instagram User'')]"

definition upsertListMetaobject ::
  "'w env \<Rightarrow> IgMedia \<Rightarrow> string list \<Rightarrow> string \<Rightarrow> string
     \<Rightarrow> (MetaobjectUpsertResponse, 'w) io" where
  "upsertListMetaobject env igData postObjectIds username displayName =
     (let listHandle = username @ ''-feed-list'' in
      request
        (gql_metaobjectUpsert env ''nn_instagram_list'' listHandle
           (list_fields env igData postObjectIds username displayName))
        (MetaobjectUpsert ''nn_instagram_list'' listHandle
           (list_fields env igData postObjectIds username displayName)))"

definition getExistingPost ::
  "'w env \<Rightarrow> string \<Rightarrow> string \<Rightarrow> (ExistingPost option, 'w) io" where
  "getExistingPost env postId username =
     (let handle = username @ ''-post-'' @ postId in
      await (request (gql_metaobjectByHandle env ''nn_instagram_post'' handle)
               (MetaobjectByHandle ''nn_instagram_post'' handle)) (\<lambda>metaobject.
      case metaobject of
        None \<Rightarrow> resolve None
      | Some metaobject \<Rightarrow>
          (case find (\<lambda>f. fst f = ''images'') (mo_fields metaobject) of
             None \<Rightarrow>
               resolve (Some \<lparr>existing_metaobjectId = mo_id metaobject, existing_fileIds = [],
                               existing_handle = mo_handle metaobject\<rparr>)
           | Some imagesField \<Rightarrow>
               (case JSON_parse_ids env (snd imagesField) of
                  Inl error \<Rightarrow> reject error
                | Inr ids \<Rightarrow>
                    resolve (Some \<lparr>existing_metaobjectId = mo_id metaobject, existing_fileIds = ids,
                                    existing_handle = mo_handle metaobject\<rparr>)))))"

text \<open>\<^verbatim>\<open>v?.startsWith(p)\<close>: falsy when \<^verbatim>\<open>v\<close> is missing.\<close>

definition starts_with :: "string option \<Rightarrow> string \<Rightarrow> bool" where
  "starts_with v p = (case v of None \<Rightarrow> False | Some s \<Rightarrow> prefix p s)"

text \<open>\<^verbatim>\<open>for (const edge of postsToDelete)\<close>\<close>

fun for_each_edge :: "'w env \<Rightarrow> Edge list \<Rightarrow> (unit, 'w) io" where
  "for_each_edge env [] = resolve ()"
| "for_each_edge env (edge # rest) =
     await (request (gql_metaobjectDelete env (fst edge)) (MetaobjectDelete (fst edge))) (\<lambda>_.
     for_each_edge env rest)"

definition deleteOldAccountData :: "'w env \<Rightarrow> string \<Rightarrow> (unit, 'w) io" where
  "deleteOldAccountData env oldUsername =
     await (request (gql_metaobjects env ''nn_instagram_post'' 250)
              (MetaobjectsQuery ''nn_instagram_post'' 250)) (\<lambda>oldPostMetaobjects.
     let oldUsernamePrefix = oldUsername @ ''-post-'';
         postsToDelete = filter (\<lambda>edge. starts_with (snd edge) oldUsernamePrefix) oldPostMetaobjects
     in
     await (for_each_edge env postsToDelete) (\<lambda>_.
     let oldListHandle = oldUsername @ ''-feed-list'' in
     await (request (gql_metaobjectByHandle env ''nn_instagram_list'' oldListHandle)
              (MetaobjectByHandle ''nn_instagram_list'' oldListHandle)) (\<lambda>oldList.
     await (case oldList of
              None \<Rightarrow> resolve ()
            | Some metaobject \<Rightarrow>
                if mo_id metaobject \<noteq> []
                then request (gql_metaobjectDelete env (mo_id metaobject))
                       (MetaobjectDelete (mo_id metaobject))
                else resolve ()) (\<lambda>_.
     let query = ''alt:'' @ oldUsername @ ''-post_'' in
     await (request (gql_files env 250 query) (FilesQuery 250 query)) (\<lambda>edges.
     let oldFiles = filter (\<lambda>edge. starts_with (snd edge) (oldUsername @ ''-post_'')) edges in
     if oldFiles \<noteq> []
     then request (gql_fileDelete env (map fst oldFiles)) (FileDelete (map fst oldFiles))
     else resolve ())))))"

section \<open>encryption.server.ts\<close>

text \<open>\<^verbatim>\<open>encryptedToken.split(":")\<close>\<close>

fun split_colon :: "string \<Rightarrow> string list" where
  "split_colon [] = [[]]"
| "split_colon (c # cs) =
     (if c = CHR '':'' then [] # split_colon cs
      else (case split_colon cs of
              [] \<Rightarrow> [[c]]
            | part # parts \<Rightarrow> (c # part) # parts))"

definition key_not_set :: string where
  "key_not_set =
     ''ENCRYPTION_KEY environment variable is not set. Generate one with: node -e ''
     @ [CHR 0x22] @ ''console.log(require('' @ [CHR 0x27] @ ''crypto'' @ [CHR 0x27]
     @ '').randomBytes(32).toString('' @ [CHR 0x27] @ ''hex'' @ [CHR 0x27] @ ''))'' @ [CHR 0x22]"

text \<open>The key stays in hex: \<^verbatim>\<open>Buffer.from(key, "hex")\<close> is left to the decipher.\<close>

definition getEncryptionKey :: "'w env \<Rightarrow> js_exn + string" where
  "getEncryptionKey env =
     (case ENCRYPTION_KEY env of
        None \<Rightarrow> Inl (Error key_not_set)
      | Some key \<Rightarrow>
          if key = [] then Inl (Error key_not_set)
          else if length key \<noteq> 64
          then Inl (Error (''ENCRYPTION_KEY must be 64 hex characters (32 bytes). Current length: ''
                            @ nat_toString (length key)))
          else Inr key)"

text \<open>
  \<^verbatim>\<open>decryptToken\<close>: it throws on an empty token, and whatever is thrown inside its
  \<^verbatim>\<open>try\<close> (no key, a key of the wrong length, a token that is not three parts, a
  decipher that fails) is thrown again as \<^verbatim>\<open>Failed to decrypt token: ...\<close>.
\<close>

definition decryptToken :: "'w env \<Rightarrow> string \<Rightarrow> js_exn + string" where
  "decryptToken env encryptedToken =
     (if encryptedToken = [] then Inl (Error ''Cannot decrypt empty token'')
      else
        (case (case getEncryptionKey env of
                 Inl error \<Rightarrow> Inl error
               | Inr key \<Rightarrow>
                   let parts = split_colon encryptedToken in
                   if length parts \<noteq> 3
                   then Inl (Error (''Invalid encrypted token format. Expected ''
                                     @ [CHR 0x27] @ ''iv:authTag:encrypted'' @ [CHR 0x27]
                                     @ '', got '' @ nat_toString (length parts) @ '' parts''))
                   else crypto_decipher env key (parts ! 0) (parts ! 1) (parts ! 2)) of
           Inl error \<Rightarrow> Inl (Error (''Failed to decrypt token: '' @ errorMessage error))
         | Inr decrypted \<Rightarrow> Inr decrypted))"

section \<open>account.server.ts\<close>

definition getInstagramAccountWithToken :: "'w env \<Rightarrow> string \<Rightarrow> (Account option, 'w) io" where
  "getInstagramAccountWithToken env shop =
     await (request (db_findAccount env shop) (DbFindAccount shop)) (\<lambda>account.
     case account of
       None \<Rightarrow> resolve None
     | Some account \<Rightarrow>
         (case decryptToken env (accessToken account) of
            Inl error \<Rightarrow> reject error
          | Inr decryptedToken \<Rightarrow> resolve (Some (account\<lparr>accessToken := decryptedToken\<rparr>))))"

definition updateAccountUsername :: "'w env \<Rightarrow> string \<Rightarrow> string \<Rightarrow> (unit, 'w) io" where
  "updateAccountUsername env accountId username =
     request (db_updateUsername env accountId username) (DbUpdateUsername accountId username)"

section \<open>api.instagram.staged-upload.tsx\<close>

text \<open>\<^verbatim>\<open>(result.data?.fileCreate?.files || []).map((f) => f.id)\<close>\<close>

definition file_ids_of :: "FileCreateResponse \<Rightarrow> string list" where
  "file_ids_of result =
     (case result of
        None \<Rightarrow> []
      | Some payload \<Rightarrow> (case files payload of None \<Rightarrow> [] | Some fs \<Rightarrow> fs))"

text \<open>
  The branch after each per-post upsert: with user errors the post is only logged;
  otherwise \<^verbatim>\<open>metaobject?.id\<close> is pushed when it is truthy.
\<close>

definition push_metaobjectId :: "MetaobjectUpsertResponse \<Rightarrow> string list \<Rightarrow> string list" where
  "push_metaobjectId metaobjectResult postObjectIds =
     (case metaobjectResult of
        None \<Rightarrow> postObjectIds
      | Some payload \<Rightarrow>
          if upsert_userErrors payload \<noteq> [] then postObjectIds
          else (case metaobject_id payload of
                  None \<Rightarrow> postObjectIds
                | Some metaobjectId \<Rightarrow>
                    if metaobjectId \<noteq> [] then postObjectIds @ [metaobjectId]
                    else postObjectIds))"

text \<open>\<^verbatim>\<open>for (let i = 0; i < post.children.data.length; i++)\<close>, from the child at \<open>i\<close> on.\<close>

fun for_each_child ::
  "'w env \<Rightarrow> string \<Rightarrow> InstagramPost \<Rightarrow> InstagramChild list \<Rightarrow> string list
     \<Rightarrow> (string list, 'w) io" where
  "for_each_child env currentUsername post [] fileIds = resolve fileIds"
| "for_each_child env currentUsername post (child # rest) fileIds =
     (let childAlt = currentUsername @ ''-post_'' @ post_id post @ ''_'' @ child_id child in
      await (uploadMediaFile env (child_media_url child) (child_media_type child) childAlt)
        (\<lambda>result.
      for_each_child env currentUsername post rest (fileIds @ file_ids_of result)))"

text \<open>
  The body of \<^verbatim>\<open>for (const post of posts)\<close>; it returns \<^verbatim>\<open>postObjectIds\<close> as it leaves it.
  \<open>carousel\<close> is \<^verbatim>\<open>post.media_type === "CAROUSEL_ALBUM" && post.children?.data\<close>.
\<close>

definition sync_post ::
  "'w env \<Rightarrow> string \<Rightarrow> InstagramPost \<Rightarrow> string list \<Rightarrow> (string list, 'w) io" where
  "sync_post env currentUsername post postObjectIds =
     await (getExistingPost env (post_id post) currentUsername) (\<lambda>existingPost.
     case existingPost of
       Some existingPost \<Rightarrow>
         await (upsertPostMetaobject env post (existing_fileIds existingPost) currentUsername)
           (\<lambda>metaobjectResult.
         resolve (push_metaobjectId metaobjectResult postObjectIds))
     | None \<Rightarrow>
         let carousel = (if media_type post = ''CAROUSEL_ALBUM'' then children post else None) in
         await
           (case carousel of
              Some childData \<Rightarrow> for_each_child env currentUsername post childData []
            | None \<Rightarrow>
                await (uploadMediaFile env (media_url post) (media_type post)
                         (currentUsername @ ''-post_'' @ post_id post)) (\<lambda>result.
                resolve (file_ids_of result)))
           (\<lambda>fileIds.
         if fileIds \<noteq> []
         then await (upsertPostMetaobject env post fileIds currentUsername) (\<lambda>metaobjectResult.
              resolve (push_metaobjectId metaobjectResult postObjectIds))
         else resolve postObjectIds))"

fun for_each_post ::
  "'w env \<Rightarrow> string \<Rightarrow> InstagramPost list \<Rightarrow> string list \<Rightarrow> (string list, 'w) io" where
  "for_each_post env currentUsername [] postObjectIds = resolve postObjectIds"
| "for_each_post env currentUsername (post # rest) postObjectIds =
     await (sync_post env currentUsername post postObjectIds) (\<lambda>postObjectIds'.
     for_each_post env currentUsername rest postObjectIds')"

text \<open>\<^verbatim>\<open>`Instagram API error: ${error.message || "Invalid or expired token"}. Please ...`\<close>\<close>

definition api_error_text :: "IgError \<Rightarrow> string" where
  "api_error_text err =
     ''Instagram API error: '' @ opt_or_else (ig_message err) ''Invalid or expired token''
       @ ''. Please reconnect your Instagram account.''"

text \<open>
  \<^verbatim>\<open>action\<close> from the account-switch check to its last \<^verbatim>\<open>return\<close>, for a non-empty
  \<^verbatim>\<open>posts\<close>.
\<close>

definition sync_feed ::
  "'w env \<Rightarrow> Account \<Rightarrow> IgMedia \<Rightarrow> string \<Rightarrow> string \<Rightarrow> InstagramPost list
     \<Rightarrow> (ActionResult, 'w) io" where
  "sync_feed env account igData currentUsername displayName posts =
     await (if truthy (account_username account)
               \<and> account_username account \<noteq> Some currentUsername
            then deleteOldAccountData env (the (account_username account))
            else resolve ()) (\<lambda>_.
     await (if \<not> truthy (account_username account)
               \<or> account_username account \<noteq> Some currentUsername
            then updateAccountUsername env (account_id account) currentUsername
            else resolve ()) (\<lambda>_.
     await (for_each_post env currentUsername posts []) (\<lambda>postObjectIds.
     await (if postObjectIds \<noteq> []
            then await (upsertListMetaobject env igData postObjectIds currentUsername
                          displayName) (\<lambda>listResult.
                 resolve ())
            else resolve ()) (\<lambda>_.
     resolve (Synced currentUsername displayName)))))"

text \<open>
  \<^verbatim>\<open>action\<close> after \<^verbatim>\<open>authenticate.admin\<close>: \<open>shop\<close> is \<^verbatim>\<open>session.shop\<close> and \<open>now\<close> is
  \<^verbatim>\<open>new Date()\<close> at the expiry check, in epoch milliseconds.
\<close>

definition action :: "'w env \<Rightarrow> string \<Rightarrow> int \<Rightarrow> (ActionResult, 'w) io" where
  "action env shop now =
     await (getInstagramAccountWithToken env shop) (\<lambda>account.
     case account of
       None \<Rightarrow> resolve NoAccount
     | Some account \<Rightarrow>
         if (case expiresAt account of None \<Rightarrow> False | Some t \<Rightarrow> t < now)
         then resolve TokenExpired
         else
           await (request (ig_fetchMedia env (accessToken account))
                    (IgFetchMedia (accessToken account))) (\<lambda>igData.
           case media_error igData of
             Some err \<Rightarrow> resolve (InstagramApiError (api_error_text err) err)
           | None \<Rightarrow>
               await (request (ig_fetchProfile env (accessToken account))
                        (IgFetchProfile (accessToken account))) (\<lambda>userData.
               case profile_error userData of
                 Some err \<Rightarrow> resolve (InstagramApiError (api_error_text err) err)
               | None \<Rightarrow>
                   (case media_data igData of
                      None \<Rightarrow> resolve (NoPostsFound 0)
                    | Some [] \<Rightarrow> resolve (NoPostsFound 0)
                    | Some (post # rest) \<Rightarrow>
                        sync_feed env account igData (profile_username userData)
                          (profile_name userData) (post # rest)))))"

text \<open>One run, observed from an empty trace.\<close>

definition run :: "'w env \<Rightarrow> string \<Rightarrow> int \<Rightarrow> 'w \<Rightarrow> (js_exn + ActionResult) \<times> 'w state" where
  "run env shop now w = action env shop now \<lparr>trace = [], world = w\<rparr>"

section \<open>Observing a computation\<close>

text \<open>
  \<open>traces m Q\<close>: from every state, \<open>m\<close> only appends to the trace, and the events it
  appends together with what it returns (or throws) satisfy \<open>Q\<close>.
\<close>

definition traces :: "('a, 'w) io \<Rightarrow> ((js_exn + 'a) \<Rightarrow> event list \<Rightarrow> bool) \<Rightarrow> bool" where
  "traces m Q \<longleftrightarrow> (\<forall>s. \<exists>evs. trace (snd (m s)) = trace s @ evs \<and> Q (fst (m s)) evs)"

text \<open>The events a computation appended: the final trace without the first \<open>n\<close>.\<close>

definition since :: "'w state \<Rightarrow> 'w state \<Rightarrow> event list" where
  "since s s' = drop (length (trace s)) (trace s')"

text \<open>Kinds of events.\<close>

fun is_post_lookup :: "event \<Rightarrow> bool" where
  "is_post_lookup (MetaobjectByHandle type handle reply) = (type = ''nn_instagram_post'')"
| "is_post_lookup _ = False"

fun is_transfer_request :: "event \<Rightarrow> bool" where
  "is_transfer_request (HttpGet url reply) = True"
| "is_transfer_request (StagedUploadsCreate filename fileSize reply) = True"
| "is_transfer_request (HttpPostForm url params filename reply) = True"
| "is_transfer_request (FileCreate alt contentType source reply) = True"
| "is_transfer_request _ = False"

fun is_upload :: "event \<Rightarrow> bool" where
  "is_upload (UploadMediaFile mediaUrl mediaType alt result) = True"
| "is_upload _ = False"

fun is_post_upsert :: "event \<Rightarrow> bool" where
  "is_post_upsert (MetaobjectUpsert type handle fs reply) = (type = ''nn_instagram_post'')"
| "is_post_upsert _ = False"

fun is_list_upsert :: "event \<Rightarrow> bool" where
  "is_list_upsert (MetaobjectUpsert type handle fs reply) = (type = ''nn_instagram_list'')"
| "is_list_upsert _ = False"

fun is_delete :: "event \<Rightarrow> bool" where
  "is_delete (MetaobjectDelete ident reply) = True"
| "is_delete (FileDelete idents reply) = True"
| "is_delete _ = False"

fun is_username_update :: "event \<Rightarrow> bool" where
  "is_username_update (DbUpdateUsername accountId username reply) = True"
| "is_username_update _ = False"

text \<open>Requests that only \<^verbatim>\<open>deleteOldAccountData\<close> sends.\<close>

fun is_teardown_request :: "event \<Rightarrow> bool" where
  "is_teardown_request (MetaobjectsQuery type first reply) = True"
| "is_teardown_request (MetaobjectDelete ident reply) = True"
| "is_teardown_request (FilesQuery first query reply) = True"
| "is_teardown_request (FileDelete idents reply) = True"
| "is_teardown_request (MetaobjectByHandle type handle reply) = (type = ''nn_instagram_list'')"
| "is_teardown_request _ = False"

text \<open>Requests that change the store or the database.\<close>

fun is_write :: "event \<Rightarrow> bool" where
  "is_write (DbUpdateUsername accountId username reply) = True"
| "is_write (HttpPostForm url params filename reply) = True"
| "is_write (StagedUploadsCreate filename fileSize reply) = True"
| "is_write (FileCreate alt contentType source reply) = True"
| "is_write (MetaobjectUpsert type handle fs reply) = True"
| "is_write (MetaobjectDelete ident reply) = True"
| "is_write (FileDelete idents reply) = True"
| "is_write _ = False"

text \<open>What one iteration of the per-post loop may emit.\<close>

definition is_per_post :: "event \<Rightarrow> bool" where
  "is_per_post e \<longleftrightarrow> is_post_lookup e \<or> is_transfer_request e \<or> is_upload e \<or> is_post_upsert e"

text \<open>
  The identifier a per-post upsert contributed: what the code pushes after a reply
  to an upsert of type \<^verbatim>\<open>nn_instagram_post\<close>, and nothing for any other event.
\<close>

fun upserted_id :: "event \<Rightarrow> string list" where
  "upserted_id (MetaobjectUpsert type handle fs reply) =
     (if type = ''nn_instagram_post''
      then (case reply of Inl error \<Rightarrow> [] | Inr result \<Rightarrow> push_metaobjectId result [])
      else [])"
| "upserted_id _ = []"

definition upserted_ids :: "event list \<Rightarrow> string list" where
  "upserted_ids evs = concat (map upserted_id evs)"


text \<open>
  The failure a step of a transfer ended in, as the message the code attaches to it:
  a rejected request, a download or an upload that is not \<^verbatim>\<open>ok\<close>, or a staged
  upload without a target.
\<close>

fun transfer_failure :: "event \<Rightarrow> string option" where
  "transfer_failure (HttpGet url reply) =
     (case reply of
        Inl error \<Rightarrow> Some (errorMessage error)
      | Inr response \<Rightarrow>
          if ok response then None
          else Some (''Failed to download video: '' @ statusText response))"
| "transfer_failure (StagedUploadsCreate filename fileSize reply) =
     (case reply of
        Inl error \<Rightarrow> Some (errorMessage error)
      | Inr [] \<Rightarrow> Some ''Failed to create staged upload''
      | Inr (stagedTarget # others) \<Rightarrow> None)"
| "transfer_failure (HttpPostForm url params filename reply) =
     (case reply of
        Inl error \<Rightarrow> Some (errorMessage error)
      | Inr response \<Rightarrow>
          if ok response then None
          else Some (''Failed to upload to staged target: '' @ statusText response))"
| "transfer_failure (FileCreate alt contentType source reply) =
     (case reply of Inl error \<Rightarrow> Some (errorMessage error) | Inr response \<Rightarrow> None)"
| "transfer_failure _ = None"


text \<open>
  The stored username and the fetched one, as a run observed them: an account switch
  is a stored username that is truthy and differs from the fetched username.
\<close>

definition observed_switch :: "event list \<Rightarrow> bool" where
  "observed_switch evs \<longleftrightarrow>
     (\<exists>shop account token userData.
        DbFindAccount shop (Inr (Some account)) \<in> set evs
        \<and> IgFetchProfile token (Inr userData) \<in> set evs
        \<and> truthy (account_username account)
        \<and> account_username account \<noteq> Some (profile_username userData))"

text \<open>A request that was answered: its reply is not a rejection.\<close>

fun answered :: "event \<Rightarrow> bool" where
  "answered (DbFindAccount shop reply) = (\<not> isl reply)"
| "answered (DbUpdateUsername accountId username reply) = (\<not> isl reply)"
| "answered (IgFetchMedia token reply) = (\<not> isl reply)"
| "answered (IgFetchProfile token reply) = (\<not> isl reply)"
| "answered (HttpGet url reply) = (\<not> isl reply)"
| "answered (HttpPostForm url params filename reply) = (\<not> isl reply)"
| "answered (StagedUploadsCreate filename fileSize reply) = (\<not> isl reply)"
| "answered (FileCreate alt contentType source reply) = (\<not> isl reply)"
| "answered (MetaobjectUpsert type handle fs reply) = (\<not> isl reply)"
| "answered (MetaobjectByHandle type handle reply) = (\<not> isl reply)"
| "answered (MetaobjectsQuery type first reply) = (\<not> isl reply)"
| "answered (MetaobjectDelete ident reply) = (\<not> isl reply)"
| "answered (FilesQuery first query reply) = (\<not> isl reply)"
| "answered (FileDelete idents reply) = (\<not> isl reply)"
| "answered (UploadMediaFile mediaUrl mediaType alt result) = True"

text \<open>
  A lookup of a post record whose \<^verbatim>\<open>images\<close> field, if the record was found and has
  one, is accepted by \<^verbatim>\<open>JSON.parse\<close>. Every other event decodes.
\<close>

fun decodes :: "'w env \<Rightarrow> event \<Rightarrow> bool" where
  "decodes env (MetaobjectByHandle type handle reply) =
     (case reply of
        Inl error \<Rightarrow> True
      | Inr None \<Rightarrow> True
      | Inr (Some metaobject) \<Rightarrow>
          type = ''nn_instagram_post'' \<longrightarrow>
          (case find (\<lambda>f. fst f = ''images'') (mo_fields metaobject) of
             None \<Rightarrow> True
           | Some imagesField \<Rightarrow> \<not> isl (JSON_parse_ids env (snd imagesField))))"
| "decodes env _ = True"

text \<open>
  An event that makes nothing throw, as far as requests go: \<^verbatim>\<open>uploadMediaFile\<close> catches the
  rejection of a request of a media transfer, and every other rejection is thrown on.
\<close>

definition went_through :: "event \<Rightarrow> bool" where
  "went_through e \<longleftrightarrow> is_transfer_request e \<or> answered e"

text \<open>Events none of which makes the run throw.\<close>

definition unhindered :: "'w env \<Rightarrow> event list \<Rightarrow> bool" where
  "unhindered env evs \<longleftrightarrow> list_all went_through evs \<and> list_all (decodes env) evs"

text \<open>
  The run passes the gates before the empty-feed check: an account is connected, its
  token decrypts to \<open>token\<close> and has not expired, and both Graph API calls return
  without an error envelope.
\<close>

definition fetched ::
  "'w env \<Rightarrow> string \<Rightarrow> int \<Rightarrow> 'w \<Rightarrow> Account \<Rightarrow> string \<Rightarrow> IgMedia \<Rightarrow> IgProfile \<Rightarrow> 'w \<Rightarrow> bool" where
  "fetched env shop now w row token igData userData w' \<longleftrightarrow>
     (\<exists>w1 w2.
        db_findAccount env shop w = (Inr (Some row), w1)
        \<and> decryptToken env (accessToken row) = Inr token
        \<and> (case expiresAt row of None \<Rightarrow> True | Some t \<Rightarrow> \<not> t < now)
        \<and> ig_fetchMedia env token w1 = (Inr igData, w2)
        \<and> media_error igData = None
        \<and> ig_fetchProfile env token w2 = (Inr userData, w')
        \<and> profile_error userData = None)"

text \<open>The three events of those gates.\<close>

definition fetch_events :: "string \<Rightarrow> Account \<Rightarrow> string \<Rightarrow> IgMedia \<Rightarrow> IgProfile \<Rightarrow> event list" where
  "fetch_events shop row token igData userData =
     [DbFindAccount shop (Inr (Some row)),
      IgFetchMedia token (Inr igData),
      IgFetchProfile token (Inr userData)]"

text \<open>
  The requests of a completed \<^verbatim>\<open>deleteOldAccountData\<close> for \<open>oldUsername\<close>, given what
  the two enumerations and the list lookup returned.
\<close>

definition teardown_events ::
  "string \<Rightarrow> Edge list \<Rightarrow> Metaobject option \<Rightarrow> Edge list \<Rightarrow> event list" where
  "teardown_events oldUsername postEdges oldList fileEdges =
     [MetaobjectsQuery ''nn_instagram_post'' 250 (Inr postEdges)]
     @ map (\<lambda>edge. MetaobjectDelete (fst edge) (Inr ()))
         (filter (\<lambda>edge. starts_with (snd edge) (oldUsername @ ''-post-'')) postEdges)
     @ [MetaobjectByHandle ''nn_instagram_list'' (oldUsername @ ''-feed-list'') (Inr oldList)]
     @ (case oldList of
          None \<Rightarrow> []
        | Some metaobject \<Rightarrow>
            if mo_id metaobject \<noteq> [] then [MetaobjectDelete (mo_id metaobject) (Inr ())] else [])
     @ [FilesQuery 250 (''alt:'' @ oldUsername @ ''-post_'') (Inr fileEdges)]
     @ (let oldFiles = filter (\<lambda>edge. starts_with (snd edge) (oldUsername @ ''-post_'')) fileEdges
        in if oldFiles \<noteq> [] then [FileDelete (map fst oldFiles) (Inr ())] else [])"

text \<open>What an iteration of the per-post loop may emit after its lookup.\<close>

definition after_lookup :: "event \<Rightarrow> bool" where
  "after_lookup e \<longleftrightarrow> is_transfer_request e \<or> is_upload e \<or> is_post_upsert e"

text \<open>
  The trace of the iteration for \<open>post\<close>, seen from outside: it starts with the lookup
  of \<^verbatim>\<open>{username}-post-{postId}\<close> and holds no other lookup.
\<close>

definition visit :: "string \<Rightarrow> InstagramPost \<Rightarrow> event list \<Rightarrow> bool" where
  "visit currentUsername post segment \<longleftrightarrow>
     (\<exists>reply tail.
        segment = MetaobjectByHandle ''nn_instagram_post''
                    (currentUsername @ ''-post-'' @ post_id post) reply # tail
        \<and> list_all after_lookup tail)"

text \<open>The events some execution of the loop body for \<open>post\<close> appended.\<close>

definition iteration :: "'w env \<Rightarrow> string \<Rightarrow> InstagramPost \<Rightarrow> event list \<Rightarrow> bool" where
  "iteration env currentUsername post evs \<longleftrightarrow>
     (\<exists>ids s. evs = since s (snd (sync_post env currentUsername post ids s)))"

text \<open>What the per-post loop guarantees, from a list of identifiers \<open>ids\<close>.\<close>

definition per_post_outcome ::
  "'w env \<Rightarrow> string list \<Rightarrow> (js_exn + string list) \<Rightarrow> event list \<Rightarrow> bool" where
  "per_post_outcome env ids r evs \<longleftrightarrow>
     list_all is_per_post evs
     \<and> (\<forall>ids'. r = Inr ids' \<longrightarrow> ids' = ids @ upserted_ids evs)
     \<and> (unhindered env evs \<longrightarrow> \<not> isl r)"

text \<open>The same for the part of an iteration that follows the lookup.\<close>

definition after_lookup_outcome ::
  "string list \<Rightarrow> (js_exn + string list) \<Rightarrow> event list \<Rightarrow> bool" where
  "after_lookup_outcome ids r evs \<longleftrightarrow>
     list_all after_lookup evs
     \<and> (\<forall>ids'. r = Inr ids' \<longrightarrow> ids' = ids @ upserted_ids evs)
     \<and> (list_all went_through evs \<longrightarrow> \<not> isl r)"

text \<open>What a transfer, or the loop over the children, guarantees.\<close>

definition transfer_outcome :: "(js_exn + 'a) \<Rightarrow> event list \<Rightarrow> bool" where
  "transfer_outcome r evs \<longleftrightarrow>
     \<not> isl r \<and> list_all (\<lambda>e. is_transfer_request e \<or> is_upload e) evs"

text \<open>
  The segments of the loop: one for each post it reached, in feed order, each the trace
  of an iteration for that post; all posts are reached unless the loop threw.
\<close>

definition loop_segments ::
  "'w env \<Rightarrow> string \<Rightarrow> InstagramPost list \<Rightarrow> (js_exn + 'a) \<Rightarrow> event list list \<Rightarrow> bool" where
  "loop_segments env currentUsername posts r segments \<longleftrightarrow>
     list_all2 (iteration env currentUsername) (take (length segments) posts) segments
     \<and> length segments \<le> length posts
     \<and> (\<not> isl r \<longrightarrow> length segments = length posts)"

text \<open>The condition under which \<^verbatim>\<open>action\<close> calls \<^verbatim>\<open>deleteOldAccountData\<close>.\<close>

definition account_switch :: "Account \<Rightarrow> string \<Rightarrow> bool" where
  "account_switch account currentUsername \<longleftrightarrow>
     truthy (account_username account) \<and> account_username account \<noteq> Some currentUsername"

text \<open>A teardown that stopped: teardown requests only, one of them rejected.\<close>

definition aborted :: "event list \<Rightarrow> bool" where
  "aborted evs \<longleftrightarrow> list_all is_teardown_request evs \<and> \<not> list_all answered evs"

text \<open>
  What \<^verbatim>\<open>deleteOldAccountData\<close> guarantees: it returns after the complete teardown,
  every request answered, or it throws at the first request that is rejected.
\<close>

definition teardown_outcome :: "string \<Rightarrow> (js_exn + unit) \<Rightarrow> event list \<Rightarrow> bool" where
  "teardown_outcome oldUsername r evs \<longleftrightarrow>
     (r = Inr ()
      \<and> (\<exists>postEdges oldList fileEdges.
            evs = teardown_events oldUsername postEdges oldList fileEdges))
     \<or> (isl r \<and> aborted evs)"

text \<open>The three reads a run starts with.\<close>

fun is_fetch :: "event \<Rightarrow> bool" where
  "is_fetch (DbFindAccount shop reply) = True"
| "is_fetch (IgFetchMedia token reply) = True"
| "is_fetch (IgFetchProfile token reply) = True"
| "is_fetch _ = False"

text \<open>
  What \<^verbatim>\<open>sync_feed\<close> guarantees, from its last step back to its first: the list upsert,
  the loop before it, the username update before that, and the teardown first.
\<close>

definition aggregate_outcome ::
  "'w env \<Rightarrow> IgMedia \<Rightarrow> string \<Rightarrow> string \<Rightarrow> string list
     \<Rightarrow> (js_exn + ActionResult) \<Rightarrow> event list \<Rightarrow> bool" where
  "aggregate_outcome env igData currentUsername displayName ids r evs \<longleftrightarrow>
     (if ids = [] then evs = []
      else (\<exists>reply. evs = [MetaobjectUpsert ''nn_instagram_list'' (currentUsername @ ''-feed-list'')
                              (list_fields env igData ids currentUsername displayName) reply]))
     \<and> (\<forall>result. r = Inr result \<longrightarrow> result = Synced currentUsername displayName)
     \<and> (list_all went_through evs \<longrightarrow> \<not> isl r)"

definition loop_outcome ::
  "'w env \<Rightarrow> IgMedia \<Rightarrow> string \<Rightarrow> string \<Rightarrow> InstagramPost list
     \<Rightarrow> (js_exn + ActionResult) \<Rightarrow> event list \<Rightarrow> bool" where
  "loop_outcome env igData currentUsername displayName posts r evs \<longleftrightarrow>
     (\<exists>segments final.
        evs = concat segments @ final
        \<and> list_all2 (iteration env currentUsername) (take (length segments) posts) segments
        \<and> length segments \<le> length posts
        \<and> list_all is_per_post (concat segments)
        \<and> (final = [] \<or>
            (\<exists>reply. final = [MetaobjectUpsert ''nn_instagram_list'' (currentUsername @ ''-feed-list'')
                         (list_fields env igData (upserted_ids (concat segments)) currentUsername
                            displayName)
                         reply]))
        \<and> (upserted_ids (concat segments) = [] \<longrightarrow> final = [])
        \<and> (\<forall>result. r = Inr result \<longrightarrow>
              result = Synced currentUsername displayName
              \<and> length segments = length posts
              \<and> (upserted_ids (concat segments) \<noteq> [] \<longrightarrow> final \<noteq> []))
        \<and> (unhindered env evs \<longrightarrow> \<not> isl r))"

definition persist_outcome ::
  "'w env \<Rightarrow> Account \<Rightarrow> IgMedia \<Rightarrow> string \<Rightarrow> string \<Rightarrow> InstagramPost list
     \<Rightarrow> (js_exn + ActionResult) \<Rightarrow> event list \<Rightarrow> bool" where
  "persist_outcome env account igData currentUsername displayName posts r evs \<longleftrightarrow>
     (\<exists>e. r = Inl e
        \<and> evs = [DbUpdateUsername (account_id account) currentUsername (Inl e)])
     \<or> (\<exists>rest.
          evs = (if \<not> truthy (account_username account)
                    \<or> account_username account \<noteq> Some currentUsername
                 then [DbUpdateUsername (account_id account) currentUsername (Inr ())]
                 else []) @ rest
          \<and> loop_outcome env igData currentUsername displayName posts r rest)"

definition feed_outcome ::
  "'w env \<Rightarrow> Account \<Rightarrow> IgMedia \<Rightarrow> string \<Rightarrow> string \<Rightarrow> InstagramPost list
     \<Rightarrow> (js_exn + ActionResult) \<Rightarrow> event list \<Rightarrow> bool" where
  "feed_outcome env account igData currentUsername displayName posts r evs \<longleftrightarrow>
     (isl r \<and> account_switch account currentUsername \<and> aborted evs)
     \<or> (\<exists>teardown rest.
          evs = teardown @ rest
          \<and> (if account_switch account currentUsername
              then \<exists>postEdges oldList fileEdges.
                     teardown = teardown_events (the (account_username account))
                                  postEdges oldList fileEdges
              else teardown = [])
          \<and> persist_outcome env account igData currentUsername displayName posts r rest)"

text \<open>The same, with the four parts of the trace named.\<close>

definition feed_shape ::
  "'w env \<Rightarrow> Account \<Rightarrow> IgMedia \<Rightarrow> string \<Rightarrow> string \<Rightarrow> InstagramPost list
     \<Rightarrow> (js_exn + ActionResult) \<Rightarrow> event list
     \<Rightarrow> event list \<Rightarrow> event list \<Rightarrow> event list list \<Rightarrow> event list \<Rightarrow> bool" where
  "feed_shape env account igData currentUsername displayName posts r evs
      teardown update segments final \<longleftrightarrow>
     evs = teardown @ update @ concat segments @ final
     \<and> list_all is_teardown_request teardown
     \<and> (\<not> account_switch account currentUsername \<longrightarrow> teardown = [])
     \<and> list_all is_username_update update
     \<and> list_all2 (iteration env currentUsername) (take (length segments) posts) segments
     \<and> length segments \<le> length posts
     \<and> list_all is_per_post (concat segments)
     \<and> (final = [] \<or>
         (\<exists>reply. final = [MetaobjectUpsert ''nn_instagram_list'' (currentUsername @ ''-feed-list'')
                      (list_fields env igData (upserted_ids (concat segments)) currentUsername
                         displayName)
                      reply]))
     \<and> (upserted_ids (concat segments) = [] \<longrightarrow> final = [])
     \<and> (\<forall>result. r = Inr result \<longrightarrow>
           result = Synced currentUsername displayName
           \<and> length segments = length posts
           \<and> (upserted_ids (concat segments) \<noteq> [] \<longrightarrow> final \<noteq> []))
     \<and> (unhindered env evs \<longrightarrow> \<not> isl r)"

text \<open>
  What a run guarantees: either it ended at one of its gates, having made reads only,
  or it made the three reads and went on as \<^verbatim>\<open>sync_feed\<close> does.
\<close>

definition run_outcome ::
  "'w env \<Rightarrow> string \<Rightarrow> (js_exn + ActionResult) \<Rightarrow> event list \<Rightarrow> bool" where
  "run_outcome env shop r evs \<longleftrightarrow>
     (list_all is_fetch evs \<and> (\<forall>u d. r \<noteq> Inr (Synced u d)))
     \<or> (\<exists>row token igData userData posts rest.
           evs = fetch_events shop row token igData userData @ rest
           \<and> media_data igData = Some posts
           \<and> feed_outcome env (row\<lparr>accessToken := token\<rparr>) igData
                (profile_username userData) (profile_name userData) posts r rest)"

section \<open>A sample shop\<close>

text \<open>
  Concrete posts and a concrete environment on which the theorems below are run. The
  shop holds records and files of a former account \<^verbatim>\<open>alice\<close>, the Graph API answers
  for \<^verbatim>\<open>bob\<close>, the post \<^verbatim>\<open>101\<close> was synced before, and the store refuses the record
  of post \<^verbatim>\<open>102\<close>.
\<close>

definition sunset_post :: InstagramPost where
  "sunset_post =
     \<lparr>post_id = ''101'', media_type = ''IMAGE'', media_url = ''https://cdn.example/101.jpg'',
      caption = Some ''Sunset'', like_count = Some 12, comments_count = Some 3,
      children = None\<rparr>"

definition bare_post :: InstagramPost where
  "bare_post =
     \<lparr>post_id = ''102'', media_type = ''IMAGE'', media_url = ''https://cdn.example/102.jpg'',
      caption = None, like_count = None, comments_count = None, children = None\<rparr>"

definition album_post :: InstagramPost where
  "album_post =
     \<lparr>post_id = ''103'', media_type = ''CAROUSEL_ALBUM'',
      media_url = ''https://cdn.example/103.jpg'',
      caption = Some ''Trip'', like_count = Some 5, comments_count = Some 0,
      children = Some
        [\<lparr>child_id = ''201'', child_media_type = ''IMAGE'',
          child_media_url = ''https://cdn.example/201.jpg''\<rparr>,
         \<lparr>child_id = ''202'', child_media_type = ''VIDEO'',
          child_media_url = ''https://cdn.example/202.mp4''\<rparr>,
         \<lparr>child_id = ''203'', child_media_type = ''IMAGE'',
          child_media_url = ''https://cdn.example/203.jpg''\<rparr>]\<rparr>"

definition empty_album :: InstagramPost where
  "empty_album =
     \<lparr>post_id = ''104'', media_type = ''CAROUSEL_ALBUM'',
      media_url = ''https://cdn.example/104.jpg'',
      caption = Some ''Empty'', like_count = Some 1, comments_count = Some 0,
      children = Some []\<rparr>"

definition partial_post :: InstagramPost where
  "partial_post =
     \<lparr>post_id = ''105'', media_type = ''IMAGE'',
      media_url = ''https://cdn.example/partial.jpg'',
      caption = Some ''Half'', like_count = Some 2, comments_count = Some 0,
      children = None\<rparr>"

definition alice_row :: Account where
  "alice_row =
     \<lparr>account_id = ''acct-1'', account_username = Some ''alice'', accessToken = ''a1b2:c3d4:e5f6'',
      expiresAt = Some 2000\<rparr>"

definition bob_row :: Account where
  "bob_row =
     \<lparr>account_id = ''acct-1'', account_username = Some ''bob'', accessToken = ''a1b2:c3d4:e5f6'',
      expiresAt = Some 2000\<rparr>"

definition bob_profile :: IgProfile where
  "bob_profile = \<lparr>profile_error = None, profile_username = ''bob'', profile_name = ''Bob B''\<rparr>"

definition feed_of :: "InstagramPost list \<Rightarrow> IgMedia" where
  "feed_of posts = \<lparr>media_error = None, media_data = Some posts\<rparr>"

text \<open>A stand-in for \<^verbatim>\<open>JSON.stringify\<close> on a list of identifiers.\<close>

fun commas :: "string list \<Rightarrow> string" where
  "commas [] = []"
| "commas [x] = x"
| "commas (x # y # zs) = x @ '','' @ commas (y # zs)"

definition sample_stringify_ids :: "string list \<Rightarrow> string" where
  "sample_stringify_ids xs = ''['' @ commas (map (\<lambda>x. CHR 0x22 # x @ [CHR 0x22]) xs) @ '']''"

definition sample_env :: "Account option \<Rightarrow> IgMedia \<Rightarrow> unit env" where
  "sample_env row feed =
     \<lparr>db_findAccount = (\<lambda>shop w. (Inr row, w)),
      db_updateUsername = (\<lambda>accountId username w. (Inr (), w)),
      ig_fetchMedia = (\<lambda>token w. (Inr feed, w)),
      ig_fetchProfile = (\<lambda>token w. (Inr bob_profile, w)),
      http_get = (\<lambda>url w. (Inr \<lparr>ok = True, statusText = ''OK'', byteLength = 2048\<rparr>, w)),
      http_postForm = (\<lambda>url params filename w.
        (Inr \<lparr>ok = True, statusText = ''Created'', byteLength = 0\<rparr>, w)),
      gql_stagedUploadsCreate = (\<lambda>filename fileSize w.
        (Inr [\<lparr>target_url = ''https://upload.example'',
               resourceUrl = ''https://upload.example/'' @ filename,
               parameters = [(''key'', filename)]\<rparr>], w)),
      gql_fileCreate = (\<lambda>alt contentType source w.
        (Inr (Some \<lparr>files = Some [''gid://file/'' @ alt],
                     file_userErrors =
                       (if source = ''https://cdn.example/partial.jpg''
                        then [''Image is still processing''] else [])\<rparr>), w)),
      gql_metaobjectUpsert = (\<lambda>type handle fs w.
        (Inr (if handle = ''bob-post-102''
              then Some \<lparr>metaobject_id = None, upsert_userErrors = [''Value is invalid'']\<rparr>
              else Some \<lparr>metaobject_id = Some (''gid://metaobject/'' @ handle),
                         upsert_userErrors = []\<rparr>), w)),
      gql_metaobjectByHandle = (\<lambda>type handle w.
        (Inr (if type = ''nn_instagram_post'' \<and> handle = ''bob-post-101''
              then Some \<lparr>mo_id = ''gid://metaobject/bob-post-101'', mo_handle = handle,
                         mo_fields =
                           [(''caption'', ''Dawn''),
                            (''images'', sample_stringify_ids [''gid://file/bob-post_101''])]\<rparr>
              else if type = ''nn_instagram_list'' \<and> handle = ''alice-feed-list''
              then Some \<lparr>mo_id = ''gid://metaobject/alice-feed-list'', mo_handle = handle,
                         mo_fields = []\<rparr>
              else None), w)),
      gql_metaobjects = (\<lambda>type first w.
        (Inr [(''gid://metaobject/alice-post-7'', Some ''alice-post-7''),
              (''gid://metaobject/carol-post-9'', Some ''carol-post-9'')], w)),
      gql_metaobjectDelete = (\<lambda>ident w. (Inr (), w)),
      gql_files = (\<lambda>first query w.
        (Inr [(''gid://file/alice-post_7'', Some ''alice-post_7''),
              (''gid://file/logo'', None)], w)),
      gql_fileDelete = (\<lambda>idents w. (Inr (), w)),
      JSON_stringify_post = (\<lambda>post. ''{id:'' @ post_id post @ ''}''),
      JSON_stringify_feed = (\<lambda>feed. ''{data}''),
      JSON_stringify_ids = sample_stringify_ids,
      JSON_parse_ids = (\<lambda>text.
        if text = sample_stringify_ids [''gid://file/bob-post_101'']
        then Inr [''gid://file/bob-post_101'']
        else Inl (Error ''Unexpected token'')),
      ENCRYPTION_KEY = Some ''000102030405060708090a0b0c0d0e0f101112131415161718191a1b1c1d1e1f'',
      crypto_decipher = (\<lambda>key ivHex authTagHex encrypted.
        if encrypted = ''e5f6'' then Inr ''IGQ''
        else Inl (Error ''Unsupported state or unable to authenticate data''))\<rparr>"

text \<open>The same shop when the remote media host answers 404.\<close>

definition offline_env :: "unit env" where
  "offline_env =
     (sample_env None (feed_of []))
       \<lparr>http_get := (\<lambda>url w.
          (Inr \<lparr>ok = False, statusText = ''Not Found'', byteLength = 0\<rparr>, w))\<rparr>"

text \<open>A row whose token was stored before tokens were encrypted.\<close>

definition legacy_row :: Account where
  "legacy_row =
     \<lparr>account_id = ''acct-1'', account_username = Some ''bob'', accessToken = ''IGQ-plaintext'',
      expiresAt = Some 2000\<rparr>"

text \<open>A row whose stored username is that of a third account.\<close>

definition carol_row :: Account where
  "carol_row =
     \<lparr>account_id = ''acct-1'', account_username = Some ''carol'', accessToken = ''a1b2:c3d4:e5f6'',
      expiresAt = Some 2000\<rparr>"

text \<open>
  The same shop when things go wrong: the store rejects the deletion of the list record
  of \<^verbatim>\<open>alice\<close> and the lookup of the record of post \<^verbatim>\<open>105\<close>, the record it holds for
  post \<^verbatim>\<open>103\<close> has an \<^verbatim>\<open>images\<close> field that is not JSON, and the database rejects the
  update of the username.
\<close>

definition faulty_env :: "Account option \<Rightarrow> IgMedia \<Rightarrow> unit env" where
  "faulty_env row feed =
     (sample_env row feed)
       \<lparr>db_updateUsername := (\<lambda>accountId username w. (Inl (Error ''Database is locked''), w)),
        gql_metaobjectByHandle := (\<lambda>type handle w.
          if handle = ''bob-post-105'' then (Inl (Error ''Throttled''), w)
          else if type = ''nn_instagram_post'' \<and> handle = ''bob-post-103''
          then (Inr (Some \<lparr>mo_id = ''gid://metaobject/bob-post-103'', mo_handle = handle,
                            mo_fields = [(''images'', ''<html>'')]\<rparr>), w)
          else gql_metaobjectByHandle (sample_env row feed) type handle w),
        gql_metaobjectDelete := (\<lambda>ident w.
          if ident = ''gid://metaobject/alice-feed-list'' then (Inl (Error ''Throttled''), w)
          else (Inr (), w))\<rparr>"

section \<open>Evaluation rules\<close>

lemmas io_defs =
  resolve_def reject_def await_def try_catch_def request_def record_event_def Let_def

lemmas sync_defs = createShopifyFile_def uploadVideoWithStaging_def uploadMediaFile_def
  upsertPostMetaobject_def upsertListMetaobject_def getExistingPost_def deleteOldAccountData_def
  getInstagramAccountWithToken_def updateAccountUsername_def sync_post_def sync_feed_def action_def run_def
  post_fields_def list_fields_def caught_def file_ids_of_def push_metaobjectId_def starts_with_def
  truthy_def or_else_def opt_or_else_def String_of_def errorMessage_def api_error_text_def
  decryptToken_def getEncryptionKey_def

lemmas sample_defs =
  sample_env_def sunset_post_def bare_post_def album_post_def empty_album_def partial_post_def
  alice_row_def bob_row_def bob_profile_def feed_of_def sample_stringify_ids_def
  legacy_row_def carol_row_def faulty_env_def




section \<open>Rules for traces\<close>

lemma traces_resolve: "Q (Inr x) [] \<Longrightarrow> traces (resolve x) Q"
  by (simp add: traces_def resolve_def)

lemma traces_reject: "Q (Inl e) [] \<Longrightarrow> traces (reject e) Q"
  by (simp add: traces_def reject_def)

lemma traces_request:
  fixes ask :: "'w \<Rightarrow> (js_exn + 'a) \<times> 'w"
  assumes q: "\<And>w. Q (fst (ask w)) [ev (fst (ask w))]"
  shows "traces (request ask ev) Q"
  unfolding traces_def
proof
  fix s :: "'w state"
  obtain r w' where a: "ask (world s) = (r, w')" by fastforce
  with q [of "world s"] show
    "\<exists>evs. trace (snd (request ask ev s)) = trace s @ evs \<and> Q (fst (request ask ev s)) evs"
    by (simp add: request_def)
qed

lemma traces_record_event: "Q (Inr ()) [e] \<Longrightarrow> traces (record_event e) Q"
  by (simp add: traces_def record_event_def)

lemma traces_await:
  assumes m: "traces m P"
    and f: "\<And>x. traces (f x) (R x)"
    and l: "\<And>e evs. P (Inl e) evs \<Longrightarrow> Q (Inl e) evs"
    and r: "\<And>x evs1 r evs2. P (Inr x) evs1 \<Longrightarrow> R x r evs2 \<Longrightarrow> Q r (evs1 @ evs2)"
  shows "traces (await m f) Q"
  unfolding traces_def
proof
  fix s
  from m obtain evs1 where 1: "trace (snd (m s)) = trace s @ evs1" "P (fst (m s)) evs1"
    unfolding traces_def by blast
  show "\<exists>evs. trace (snd (await m f s)) = trace s @ evs \<and> Q (fst (await m f s)) evs"
  proof (cases "fst (m s)")
    case (Inl e)
    then have "await m f s = (Inl e, snd (m s))"
      by (cases "m s") (simp add: await_def)
    with 1 Inl l show ?thesis by auto
  next
    case (Inr x)
    then have 2: "await m f s = f x (snd (m s))"
      by (cases "m s") (simp add: await_def)
    from f obtain evs2 where 3: "trace (snd (f x (snd (m s)))) = trace (snd (m s)) @ evs2"
      "R x (fst (f x (snd (m s)))) evs2"
      unfolding traces_def by blast
    from 1 Inr 3 r have "Q (fst (f x (snd (m s)))) (evs1 @ evs2)" by auto
    with 1 2 3 show ?thesis by auto
  qed
qed

lemma traces_try_catch:
  assumes m: "traces m P"
    and h: "\<And>e. traces (h e) (R e)"
    and l: "\<And>x evs. P (Inr x) evs \<Longrightarrow> Q (Inr x) evs"
    and r: "\<And>e evs1 r evs2. P (Inl e) evs1 \<Longrightarrow> R e r evs2 \<Longrightarrow> Q r (evs1 @ evs2)"
  shows "traces (try_catch m h) Q"
  unfolding traces_def
proof
  fix s
  from m obtain evs1 where 1: "trace (snd (m s)) = trace s @ evs1" "P (fst (m s)) evs1"
    unfolding traces_def by blast
  show "\<exists>evs. trace (snd (try_catch m h s)) = trace s @ evs \<and> Q (fst (try_catch m h s)) evs"
  proof (cases "fst (m s)")
    case (Inr x)
    then have "try_catch m h s = (Inr x, snd (m s))"
      by (cases "m s") (simp add: try_catch_def)
    with 1 Inr l show ?thesis by auto
  next
    case (Inl e)
    then have 2: "try_catch m h s = h e (snd (m s))"
      by (cases "m s") (simp add: try_catch_def)
    from h obtain evs2 where 3: "trace (snd (h e (snd (m s)))) = trace (snd (m s)) @ evs2"
      "R e (fst (h e (snd (m s)))) evs2"
      unfolding traces_def by blast
    from 1 Inl 3 r have "Q (fst (h e (snd (m s)))) (evs1 @ evs2)" by auto
    with 1 2 3 show ?thesis by auto
  qed
qed

lemma traces_weaken: "traces m P \<Longrightarrow> (\<And>r evs. P r evs \<Longrightarrow> Q r evs) \<Longrightarrow> traces m Q"
  unfolding traces_def by blast


lemma traces_conj: "traces m P \<Longrightarrow> traces m Q \<Longrightarrow> traces m (\<lambda>r evs. P r evs \<and> Q r evs)"
  unfolding traces_def by (metis same_append_eq)

lemma upserted_ids_append [simp]: "upserted_ids (xs @ ys) = upserted_ids xs @ upserted_ids ys"
  by (simp add: upserted_ids_def)

lemma upserted_ids_Nil [simp]: "upserted_ids [] = []"
  by (simp add: upserted_ids_def)

lemma upserted_ids_Cons [simp]: "upserted_ids (e # evs) = upserted_id e @ upserted_ids evs"
  by (simp add: upserted_ids_def)

lemma push_metaobjectId_append:
  "push_metaobjectId result ids = ids @ push_metaobjectId result []"
  by (simp add: push_metaobjectId_def split: option.splits)

section \<open>The per-post record\<close>

text \<open>
  C1. \<^verbatim>\<open>upsertPostMetaobject\<close> is to write the caption, defaulting to \<^verbatim>\<open>"No caption"\<close>,
  and the like and comment counts, each defaulting to \<^verbatim>\<open>"0"\<close> when the remote post has
  none. For a post with no caption and no counts the request it sends carries the
  caption \<^verbatim>\<open>"No caption"\<close> but the likes and comments \<^verbatim>\<open>"undefined"\<close>, not \<^verbatim>\<open>"0"\<close>.
\<close>

theorem upsertPostMetaobject_absent_counts:
  "\<exists>reply w'. upsertPostMetaobject env bare_post fileIds username s =
      (reply,
       \<lparr>trace = trace s @
          [MetaobjectUpsert ''nn_instagram_post'' (username @ ''-post-102'')
             [(''data'', JSON_stringify_post env bare_post),
              (''images'', JSON_stringify_ids env fileIds),
              (''caption'', ''No caption''),
              (''likes'', ''undefined''),
              (''comments'', ''undefined'')] reply],
        world = w'\<rparr>)"
  by (simp add: upsertPostMetaobject_def post_fields_def request_def bare_post_def
      opt_or_else_def or_else_def String_of_def Let_def split: prod.splits)

section \<open>The gates of a run\<close>

text \<open>
  C8, when the stored token decrypts. When the connected account's expiry timestamp
  lies before the current time, the only thing the run does is the local read of the
  account: no Graph API call, no store request, no write. The token is decrypted before
  the expiry is looked at: when it decrypts, the run returns the expired-credential
  result; when \<^verbatim>\<open>decryptToken\<close> throws, the run throws what it threw.
\<close>

theorem expired_token_stops_run:
  assumes "db_findAccount env shop w = (Inr (Some row), w')"
    and "expiresAt row = Some t" and "t < now"
  shows "trace (snd (run env shop now w)) = [DbFindAccount shop (Inr (Some row))]
    \<and> (\<forall>token. decryptToken env (accessToken row) = Inr token
          \<longrightarrow> run env shop now w =
                (Inr TokenExpired,
                 \<lparr>trace = [DbFindAccount shop (Inr (Some row))], world = w'\<rparr>))
    \<and> (\<forall>error. decryptToken env (accessToken row) = Inl error
          \<longrightarrow> fst (run env shop now w) = Inl error)"
  using assms
  by (cases "decryptToken env (accessToken row)")
     (simp_all add: run_def action_def getInstagramAccountWithToken_def io_defs)

theorem expired_token_stops_run_witness:
  "db_findAccount (sample_env (Some alice_row) (feed_of [sunset_post])) ''shop.example'' ()
     = (Inr (Some alice_row), ())
   \<and> expiresAt alice_row = Some 2000 \<and> (2000::int) < 3000
   \<and> decryptToken (sample_env (Some alice_row) (feed_of [sunset_post])) (accessToken alice_row)
     = Inr ''IGQ''
   \<and> run (sample_env (Some alice_row) (feed_of [sunset_post])) ''shop.example'' 3000 () =
     (Inr TokenExpired,
      \<lparr>trace = [DbFindAccount ''shop.example'' (Inr (Some alice_row))], world = ()\<rparr>)"
proof -
  let ?env = "sample_env (Some alice_row) (feed_of [sunset_post])"
  have a: "db_findAccount ?env ''shop.example'' () = (Inr (Some alice_row), ())"
    by (simp add: sample_env_def)
  have b: "expiresAt alice_row = Some 2000" by (simp add: alice_row_def)
  have c: "(2000::int) < 3000" by simp
  have d: "decryptToken ?env (accessToken alice_row) = Inr ''IGQ''"
    by (simp add: decryptToken_def getEncryptionKey_def sample_env_def alice_row_def)
  from expired_token_stops_run [OF a b c] a b c d show ?thesis by simp
qed

text \<open>
  C8 as stated fails for a stored token that does not decrypt: a row that holds a token
  in plain text and has expired makes the run throw, not return the expired-credential
  result.
\<close>

theorem expired_plaintext_token_throws:
  "expiresAt legacy_row = Some 2000 \<and> (2000::int) < 3000
   \<and> run (sample_env (Some legacy_row) (feed_of [sunset_post])) ''shop.example'' 3000 () =
     (Inl (Error (''Failed to decrypt token: Invalid encrypted token format. Expected ''
                    @ [CHR 0x27] @ ''iv:authTag:encrypted'' @ [CHR 0x27] @ '', got 1 parts'')),
      \<lparr>trace = [DbFindAccount ''shop.example'' (Inr (Some legacy_row))], world = ()\<rparr>)"
  by (simp add: sync_defs io_defs sample_defs nat_toString.simps digit_def)

text \<open>
  C6. When the account is connected, its token decrypts and has not expired, and the
  media fetch returns no error and zero posts (an absent or empty \<^verbatim>\<open>data\<close>), the run
  sends no request that writes: no upsert, no file creation, no delete, no username
  update. When the profile fetch then returns without an error envelope, the run returns
  the success object with \<^verbatim>\<open>postsCount: 0\<close>, having made exactly the three reads.
\<close>

theorem empty_feed_short_circuit:
  assumes "db_findAccount env shop w = (Inr (Some row), w1)"
    and "decryptToken env (accessToken row) = Inr token"
    and "case expiresAt row of None \<Rightarrow> True | Some t \<Rightarrow> \<not> t < now"
    and "ig_fetchMedia env token w1 = (Inr igData, w2)"
    and "media_error igData = None"
    and "media_data igData = None \<or> media_data igData = Some []"
  shows "filter is_write (trace (snd (run env shop now w))) = []
    \<and> (\<forall>userData w3.
          ig_fetchProfile env token w2 = (Inr userData, w3)
          \<and> profile_error userData = None
          \<longrightarrow> run env shop now w =
                (Inr (NoPostsFound 0),
                 \<lparr>trace = fetch_events shop row token igData userData, world = w3\<rparr>))"
  using assms
  by (auto simp add: run_def action_def getInstagramAccountWithToken_def io_defs fetch_events_def
      split: option.splits prod.splits sum.splits)

theorem empty_feed_short_circuit_witness:
  "filter is_write
     (trace (snd (run (sample_env (Some alice_row) (feed_of [])) ''shop.example'' 1000 ()))) = []
   \<and> run (sample_env (Some alice_row) (feed_of [])) ''shop.example'' 1000 () =
     (Inr (NoPostsFound 0),
      \<lparr>trace =
         [DbFindAccount ''shop.example'' (Inr (Some alice_row)),
          IgFetchMedia ''IGQ'' (Inr (feed_of [])),
          IgFetchProfile ''IGQ'' (Inr bob_profile)],
       world = ()\<rparr>)"
proof -
  let ?env = "sample_env (Some alice_row) (feed_of [])"
  have a: "db_findAccount ?env ''shop.example'' () = (Inr (Some alice_row), ())"
    by (simp add: sample_env_def)
  have h: "decryptToken ?env (accessToken alice_row) = Inr ''IGQ''"
    by (simp add: decryptToken_def getEncryptionKey_def sample_env_def alice_row_def)
  have b: "case expiresAt alice_row of None \<Rightarrow> True | Some t \<Rightarrow> \<not> t < 1000"
    by (simp add: alice_row_def)
  have c: "ig_fetchMedia ?env ''IGQ'' () = (Inr (feed_of []), ())"
    by (simp add: sample_env_def)
  have d: "media_error (feed_of []) = None" by (simp add: feed_of_def)
  have e: "media_data (feed_of []) = None \<or> media_data (feed_of []) = Some []"
    by (simp add: feed_of_def)
  have f: "ig_fetchProfile ?env ''IGQ'' () = (Inr bob_profile, ())"
    by (simp add: sample_env_def)
  have g: "profile_error bob_profile = None" by (simp add: bob_profile_def)
  from empty_feed_short_circuit [OF a h b c d e] f g show ?thesis
    by (simp add: fetch_events_def)
qed

text \<open>
  C10. When the run passes its gates and the media fetch returns zero posts, it returns
  before the account-switch branch: even with a stored username that is set and differs
  from the fetched one, the run consists of the three reads only. It sends none of the
  requests of \<^verbatim>\<open>deleteOldAccountData\<close> and does not update the stored username, so the
  old account's records, list record and files stay, and so does the stored username
  that makes a later run with posts tear them down.
\<close>

theorem empty_feed_defers_reconciliation:
  assumes "fetched env shop now w row token igData userData w'"
    and "media_data igData = None \<or> media_data igData = Some []"
    and "truthy (account_username row)"
    and "account_username row \<noteq> Some (profile_username userData)"
  shows "run env shop now w =
           (Inr (NoPostsFound 0),
            \<lparr>trace = fetch_events shop row token igData userData, world = w'\<rparr>)
    \<and> filter (\<lambda>e. is_teardown_request e \<or> is_username_update e)
         (trace (snd (run env shop now w))) = []"
  using assms
  by (auto simp add: fetched_def run_def action_def getInstagramAccountWithToken_def io_defs
      fetch_events_def split: option.splits)

theorem empty_feed_defers_reconciliation_witness:
  "fetched (sample_env (Some alice_row) (feed_of [])) ''shop.example'' 1000 () alice_row ''IGQ''
     (feed_of []) bob_profile ()
   \<and> truthy (account_username alice_row)
   \<and> account_username alice_row \<noteq> Some (profile_username bob_profile)
   \<and> filter (\<lambda>e. is_teardown_request e \<or> is_username_update e)
       (trace (snd (run (sample_env (Some alice_row) (feed_of [])) ''shop.example'' 1000 ())))
     = []"
proof -
  let ?env = "sample_env (Some alice_row) (feed_of [])"
  have a: "fetched ?env ''shop.example'' 1000 () alice_row ''IGQ'' (feed_of []) bob_profile ()"
    by (simp add: fetched_def decryptToken_def getEncryptionKey_def sample_defs)
  have b: "media_data (feed_of []) = None \<or> media_data (feed_of []) = Some []"
    by (simp add: feed_of_def)
  have c: "truthy (account_username alice_row)" by (simp add: truthy_def alice_row_def)
  have d: "account_username alice_row \<noteq> Some (profile_username bob_profile)"
    by (simp add: alice_row_def bob_profile_def)
  from empty_feed_defers_reconciliation [OF a b c d] a c d show ?thesis
    by (simp add: fetch_events_def)
qed

section \<open>Media transfer\<close>

text \<open>
  C5, as the code has it. \<^verbatim>\<open>uploadMediaFile\<close> always returns a result and never throws.
  Whenever a step of the transfer fails (the download, the staged-upload creation, the
  upload, or a rejected store request) the result is the object with an empty file list
  and one user error carrying the failure's message. When no step fails, the result is
  the store's reply to \<^verbatim>\<open>fileCreate\<close> as it came, user errors and files included.
\<close>

theorem uploadMediaFile_never_throws:
  "\<exists>result evs w'.
     uploadMediaFile env mediaUrl mediaType alt s =
       (Inr result,
        \<lparr>trace = trace s @ evs @ [UploadMediaFile mediaUrl mediaType alt result], world = w'\<rparr>)
     \<and> list_all is_transfer_request evs
     \<and> (\<forall>e message. e \<in> set evs \<and> transfer_failure e = Some message
           \<longrightarrow> result = Some \<lparr>files = Some [], file_userErrors = [message]\<rparr>)
     \<and> ((\<forall>e \<in> set evs. transfer_failure e = None)
           \<longrightarrow> (\<exists>contentType source. last evs = FileCreate alt contentType source (Inr result)))"
proof (cases "mediaType = ''VIDEO''")
  case False
  then show ?thesis
    by (cases "gql_fileCreate env alt ''IMAGE'' mediaUrl (world s)")
       (auto simp add: uploadMediaFile_def createShopifyFile_def io_defs caught_def
          errorMessage_def split: sum.splits)
next
  case True
  then show ?thesis
    by (auto simp add: uploadMediaFile_def uploadVideoWithStaging_def createShopifyFile_def
        io_defs caught_def errorMessage_def
        split: prod.splits sum.splits list.splits if_splits)
qed

theorem uploadMediaFile_never_throws_witness:
  "uploadMediaFile offline_env ''https://cdn.example/202.mp4'' ''VIDEO'' ''bob-post_103_202''
      \<lparr>trace = [], world = ()\<rparr> =
     (Inr (Some \<lparr>files = Some [], file_userErrors = [''Failed to download video: Not Found'']\<rparr>),
      \<lparr>trace =
         [HttpGet ''https://cdn.example/202.mp4''
            (Inr \<lparr>ok = False, statusText = ''Not Found'', byteLength = 0\<rparr>),
          UploadMediaFile ''https://cdn.example/202.mp4'' ''VIDEO'' ''bob-post_103_202''
            (Some \<lparr>files = Some [],
                   file_userErrors = [''Failed to download video: Not Found'']\<rparr>)],
       world = ()\<rparr>)"
  using uploadMediaFile_never_throws
    [of offline_env "''https://cdn.example/202.mp4''" "''VIDEO''" "''bob-post_103_202''"
       "\<lparr>trace = [], world = ()\<rparr>"]
  by (simp add: sync_defs io_defs offline_env_def sample_env_def)

text \<open>
  C5 as stated fails for store-side user errors: when the store answers \<^verbatim>\<open>fileCreate\<close>
  with a file and a user error, the result still carries the file.
\<close>

theorem uploadMediaFile_keeps_store_reply:
  "fst (uploadMediaFile (sample_env None (feed_of [])) ''https://cdn.example/partial.jpg''
          ''IMAGE'' ''bob-post_105'' \<lparr>trace = [], world = ()\<rparr>) =
     Inr (Some \<lparr>files = Some [''gid://file/bob-post_105''],
                 file_userErrors = [''Image is still processing'']\<rparr>)"
  by (simp add: sync_defs io_defs sample_env_def)

text \<open>The same fact in the form the loops use: a result, and only transfer requests.\<close>

lemma uploadMediaFile_returns:
  "\<exists>result evs w'.
     uploadMediaFile env mediaUrl mediaType alt s =
       (Inr result,
        \<lparr>trace = trace s @ evs @ [UploadMediaFile mediaUrl mediaType alt result], world = w'\<rparr>)
     \<and> list_all is_transfer_request evs"
proof (cases "mediaType = ''VIDEO''")
  case False
  then show ?thesis
    by (cases "gql_fileCreate env alt ''IMAGE'' mediaUrl (world s)")
       (auto simp add: uploadMediaFile_def createShopifyFile_def io_defs split: sum.splits)
next
  case True
  then show ?thesis
    by (auto simp add: uploadMediaFile_def uploadVideoWithStaging_def createShopifyFile_def
        io_defs split: prod.splits sum.splits list.splits if_splits)
qed

lemma transfer_request_only:
  "is_transfer_request e \<Longrightarrow> \<not> is_upload e \<and> \<not> is_post_upsert e"
  by (cases e) simp_all

lemma filter_transfer [simp]:
  "list_all is_transfer_request evs \<Longrightarrow> filter is_upload evs = []"
  "list_all is_transfer_request evs \<Longrightarrow> filter is_post_upsert evs = []"
  by (auto simp add: filter_empty_conv list_all_iff dest: transfer_request_only)




section \<open>One iteration of the per-post loop\<close>

text \<open>The lookup, as a step from one state to the next.\<close>

lemma getExistingPost_run:
  fixes env :: "'w env"
  shows "\<exists>r. getExistingPost env postId username s =
       (r, \<lparr>trace = trace s @
              [MetaobjectByHandle ''nn_instagram_post'' (username @ ''-post-'' @ postId)
                 (fst (gql_metaobjectByHandle env ''nn_instagram_post''
                         (username @ ''-post-'' @ postId) (world s)))],
            world = snd (gql_metaobjectByHandle env ''nn_instagram_post''
                           (username @ ''-post-'' @ postId) (world s))\<rparr>)
     \<and> (unhindered env
           [MetaobjectByHandle ''nn_instagram_post'' (username @ ''-post-'' @ postId)
              (fst (gql_metaobjectByHandle env ''nn_instagram_post''
                      (username @ ''-post-'' @ postId) (world s)))]
         \<longrightarrow> \<not> isl r)"
  by (cases "gql_metaobjectByHandle env ''nn_instagram_post'' (username @ ''-post-'' @ postId)
               (world s)")
     (auto simp add: getExistingPost_def io_defs unhindered_def went_through_def
        split: option.splits sum.splits)

lemma getExistingPost_traces:
  fixes env :: "'w env"
  shows "traces (getExistingPost env postId username)
     (\<lambda>r evs. (\<exists>reply. evs = [MetaobjectByHandle ''nn_instagram_post''
                                 (username @ ''-post-'' @ postId) reply])
        \<and> (unhindered env evs \<longrightarrow> \<not> isl r))"
  unfolding traces_def
proof
  fix s :: "'w state"
  from getExistingPost_run [of env postId username s]
  show "\<exists>evs. trace (snd (getExistingPost env postId username s)) = trace s @ evs \<and>
             (\<exists>reply. evs = [MetaobjectByHandle ''nn_instagram_post''
                                 (username @ ''-post-'' @ postId) reply])
             \<and> (unhindered env evs \<longrightarrow> \<not> isl (fst (getExistingPost env postId username s)))"
    by auto
qed

lemma upsert_then_push_traces:
  fixes env :: "'w env"
  shows "traces
     (await (upsertPostMetaobject env post fileIds username) (\<lambda>metaobjectResult.
        resolve (push_metaobjectId metaobjectResult ids)))
     (after_lookup_outcome ids)"
  unfolding traces_def
proof
  fix s :: "'w state"
  let ?m = "await (upsertPostMetaobject env post fileIds username) (\<lambda>metaobjectResult.
        resolve (push_metaobjectId metaobjectResult ids))"
  obtain r w' where a: "gql_metaobjectUpsert env ''nn_instagram_post''
      (username @ ''-post-'' @ post_id post) (post_fields env post fileIds) (world s) = (r, w')"
    by fastforce
  show "\<exists>evs. trace (snd (?m s)) = trace s @ evs \<and> after_lookup_outcome ids (fst (?m s)) evs"
    using a push_metaobjectId_append [of _ ids]
    by (auto simp add: upsertPostMetaobject_def io_defs after_lookup_outcome_def after_lookup_def
        went_through_def split: sum.splits)
qed

lemma uploadMediaFile_traces:
  fixes env :: "'w env"
  shows "traces (uploadMediaFile env mediaUrl mediaType alt) transfer_outcome"
  unfolding traces_def
proof
  fix s :: "'w state"
  obtain result evs w' where a:
    "uploadMediaFile env mediaUrl mediaType alt s =
       (Inr result,
        \<lparr>trace = trace s @ evs @ [UploadMediaFile mediaUrl mediaType alt result], world = w'\<rparr>)"
    "list_all is_transfer_request evs"
    using uploadMediaFile_returns [of env mediaUrl mediaType alt s] by blast
  have "list_all (\<lambda>e. is_transfer_request e \<or> is_upload e) evs"
    using a(2) by (simp add: list_all_iff)
  with a show "\<exists>evs. trace (snd (uploadMediaFile env mediaUrl mediaType alt s)) = trace s @ evs \<and>
      transfer_outcome (fst (uploadMediaFile env mediaUrl mediaType alt s)) evs"
    by (simp add: transfer_outcome_def)
qed

lemma for_each_child_traces:
  "traces (for_each_child env currentUsername post childData fileIds) transfer_outcome"
proof (induction childData arbitrary: fileIds)
  case Nil
  show ?case by (simp add: traces_resolve transfer_outcome_def)
next
  case (Cons child rest)
  show ?case
    unfolding for_each_child.simps Let_def
    by (rule traces_await [OF uploadMediaFile_traces Cons.IH])
       (auto simp add: transfer_outcome_def)
qed

lemma transfer_no_ids:
  "list_all (\<lambda>e. is_transfer_request e \<or> is_upload e) evs
     \<Longrightarrow> upserted_ids evs = [] \<and> list_all after_lookup evs"
proof (induction evs)
  case Nil
  show ?case by simp
next
  case (Cons e evs)
  then have "is_transfer_request e \<or> is_upload e" by simp
  then have "upserted_id e = []" "after_lookup e"
    by (cases e; simp add: after_lookup_def)+
  with Cons show ?case by simp
qed

text \<open>What follows the lookup, for either answer of it.\<close>

lemma after_lookup_traces:
  fixes env :: "'w env"
  shows "traces
          (case existingPost of
             None \<Rightarrow>
               let carousel = if media_type post = ''CAROUSEL_ALBUM'' then children post else None
               in await
                    (case carousel of
                       None \<Rightarrow>
                         await (uploadMediaFile env (media_url post) (media_type post)
                                  (currentUsername @ ''-post_'' @ post_id post))
                           (\<lambda>result. resolve (file_ids_of result))
                     | Some childData \<Rightarrow> for_each_child env currentUsername post childData [])
                    (\<lambda>fileIds.
                        if fileIds \<noteq> []
                        then await (upsertPostMetaobject env post fileIds currentUsername)
                               (\<lambda>metaobjectResult. resolve (push_metaobjectId metaobjectResult ids))
                        else resolve ids)
           | Some existingPost \<Rightarrow>
               await (upsertPostMetaobject env post (existing_fileIds existingPost) currentUsername)
                 (\<lambda>metaobjectResult. resolve (push_metaobjectId metaobjectResult ids)))
          (after_lookup_outcome ids)"
proof (cases existingPost)
  case (Some found)
  then show ?thesis by (simp add: upsert_then_push_traces)
next
  case None
  have transfer: "traces
     (case (if media_type post = ''CAROUSEL_ALBUM'' then children post else None) of
        None \<Rightarrow>
          await (uploadMediaFile env (media_url post) (media_type post)
                   (currentUsername @ ''-post_'' @ post_id post))
            (\<lambda>result. resolve (file_ids_of result))
      | Some childData \<Rightarrow> for_each_child env currentUsername post childData [])
     transfer_outcome"
  proof (cases "if media_type post = ''CAROUSEL_ALBUM'' then children post else None")
    case None
    have "traces (await (uploadMediaFile env (media_url post) (media_type post)
                   (currentUsername @ ''-post_'' @ post_id post))
            (\<lambda>result. resolve (file_ids_of result))) transfer_outcome"
      by (rule traces_await [OF uploadMediaFile_traces,
            where R = "\<lambda>_ r evs. \<not> isl r \<and> evs = []"])
         (auto simp add: transfer_outcome_def traces_resolve)
    with None show ?thesis by simp
  next
    case (Some childData)
    then show ?thesis by (simp add: for_each_child_traces)
  qed
  have "traces
     (await
        (case (if media_type post = ''CAROUSEL_ALBUM'' then children post else None) of
           None \<Rightarrow>
             await (uploadMediaFile env (media_url post) (media_type post)
                      (currentUsername @ ''-post_'' @ post_id post))
               (\<lambda>result. resolve (file_ids_of result))
         | Some childData \<Rightarrow> for_each_child env currentUsername post childData [])
        (\<lambda>fileIds.
            if fileIds \<noteq> []
            then await (upsertPostMetaobject env post fileIds currentUsername)
                   (\<lambda>metaobjectResult. resolve (push_metaobjectId metaobjectResult ids))
            else resolve ids))
     (after_lookup_outcome ids)"
  proof (rule traces_await [OF transfer, where R = "\<lambda>_. after_lookup_outcome ids"])
    fix fileIds :: "string list"
    show "traces
            (if fileIds \<noteq> []
             then await (upsertPostMetaobject env post fileIds currentUsername)
                    (\<lambda>metaobjectResult. resolve (push_metaobjectId metaobjectResult ids))
             else resolve ids)
            (after_lookup_outcome ids)"
      by (simp add: upsert_then_push_traces traces_resolve after_lookup_outcome_def)
  next
    fix e :: js_exn and evs
    assume "transfer_outcome (Inl e :: js_exn + string list) evs"
    then show "after_lookup_outcome ids (Inl e) evs" by (simp add: transfer_outcome_def)
  next
    fix x :: "string list" and evs1 r evs2
    assume a: "transfer_outcome (Inr x :: js_exn + string list) evs1"
      and b: "after_lookup_outcome ids r evs2"
    from a have "upserted_ids evs1 = []" "list_all after_lookup evs1"
      using transfer_no_ids [of evs1] by (simp_all add: transfer_outcome_def)
    with b show "after_lookup_outcome ids r (evs1 @ evs2)"
      by (simp add: after_lookup_outcome_def)
  qed
  with None show ?thesis by (simp add: Let_def)
qed

lemma after_lookup_kind:
  "after_lookup e \<Longrightarrow> is_per_post e \<and> \<not> is_post_lookup e \<and> decodes env e"
  by (cases e) (simp_all add: after_lookup_def is_per_post_def)

lemma sync_post_traces:
  fixes env :: "'w env"
  shows "traces (sync_post env currentUsername post ids) (per_post_outcome env ids)"
  unfolding sync_post_def
proof (rule traces_await [OF getExistingPost_traces after_lookup_traces])
  fix e :: js_exn and evs
  assume "(\<exists>reply. evs = [MetaobjectByHandle ''nn_instagram_post''
                             (currentUsername @ ''-post-'' @ post_id post) reply])
        \<and> (unhindered env evs \<longrightarrow> \<not> isl (Inl e :: js_exn + ExistingPost option))"
  then show "per_post_outcome env ids (Inl e) evs"
    by (auto simp add: per_post_outcome_def is_per_post_def)
next
  fix x :: "ExistingPost option" and evs1 r evs2
  assume a: "(\<exists>reply. evs1 = [MetaobjectByHandle ''nn_instagram_post''
                             (currentUsername @ ''-post-'' @ post_id post) reply])
        \<and> (unhindered env evs1 \<longrightarrow> \<not> isl (Inr x :: js_exn + ExistingPost option))"
    and b: "after_lookup_outcome ids r evs2"
  from b have "list_all is_per_post evs2"
    by (auto simp add: after_lookup_outcome_def list_all_iff dest: after_lookup_kind)
  with a b show "per_post_outcome env ids r (evs1 @ evs2)"
    by (auto simp add: per_post_outcome_def after_lookup_outcome_def is_per_post_def
        unhindered_def)
qed

text \<open>An iteration starts with its lookup, whose reply is the store's in the state it starts from.\<close>

lemma sync_post_head:
  fixes env :: "'w env"
  shows "\<exists>tail.
     trace (snd (sync_post env currentUsername post ids s)) =
       trace s @
       MetaobjectByHandle ''nn_instagram_post'' (currentUsername @ ''-post-'' @ post_id post)
         (fst (gql_metaobjectByHandle env ''nn_instagram_post''
                 (currentUsername @ ''-post-'' @ post_id post) (world s))) # tail
     \<and> list_all after_lookup tail"
proof -
  let ?handle = "currentUsername @ ''-post-'' @ post_id post"
  let ?look = "MetaobjectByHandle ''nn_instagram_post'' ?handle
         (fst (gql_metaobjectByHandle env ''nn_instagram_post'' ?handle (world s)))"
  let ?s1 = "\<lparr>trace = trace s @ [?look],
              world = snd (gql_metaobjectByHandle env ''nn_instagram_post'' ?handle (world s))\<rparr>"
  from getExistingPost_run [of env "post_id post" currentUsername s]
  obtain r where r: "getExistingPost env (post_id post) currentUsername s = (r, ?s1)" by blast
  show ?thesis
  proof (cases r)
    case (Inl e)
    with r have "sync_post env currentUsername post ids s = (Inl e, ?s1)"
      by (simp add: sync_post_def await_def)
    then show ?thesis by simp
  next
    case (Inr existingPost)
    let ?rest = "case existingPost of
             None \<Rightarrow>
               let carousel = if media_type post = ''CAROUSEL_ALBUM'' then children post else None
               in await
                    (case carousel of
                       None \<Rightarrow>
                         await (uploadMediaFile env (media_url post) (media_type post)
                                  (currentUsername @ ''-post_'' @ post_id post))
                           (\<lambda>result. resolve (file_ids_of result))
                     | Some childData \<Rightarrow> for_each_child env currentUsername post childData [])
                    (\<lambda>fileIds.
                        if fileIds \<noteq> []
                        then await (upsertPostMetaobject env post fileIds currentUsername)
                               (\<lambda>metaobjectResult. resolve (push_metaobjectId metaobjectResult ids))
                        else resolve ids)
           | Some existingPost \<Rightarrow>
               await (upsertPostMetaobject env post (existing_fileIds existingPost) currentUsername)
                 (\<lambda>metaobjectResult. resolve (push_metaobjectId metaobjectResult ids))"
    from r Inr have run: "sync_post env currentUsername post ids s = ?rest ?s1"
      by (simp add: sync_post_def await_def)
    from after_lookup_traces [where existingPost = existingPost and post = post and env = env
        and currentUsername = currentUsername and ids = ids]
    obtain evs where "trace (snd (?rest ?s1)) = trace ?s1 @ evs" "list_all after_lookup evs"
      unfolding traces_def after_lookup_outcome_def by blast
    with run show ?thesis by simp
  qed
qed

lemma sync_post_iteration:
  fixes env :: "'w env"
  shows "traces (sync_post env currentUsername post ids)
           (\<lambda>r evs. iteration env currentUsername post evs)"
  unfolding traces_def
proof
  fix s :: "'w state"
  from sync_post_head [of env currentUsername post ids s]
  obtain evs where evs: "trace (snd (sync_post env currentUsername post ids s)) = trace s @ evs"
    by blast
  then have "evs = since s (snd (sync_post env currentUsername post ids s))"
    by (simp add: since_def)
  then have "iteration env currentUsername post evs" unfolding iteration_def by blast
  with evs show "\<exists>evs. trace (snd (sync_post env currentUsername post ids s)) = trace s @ evs
      \<and> iteration env currentUsername post evs"
    by blast
qed

lemma iteration_visit:
  assumes "iteration env currentUsername post segment"
  shows "visit currentUsername post segment"
proof -
  from assms obtain ids s where
    seg: "segment = since s (snd (sync_post env currentUsername post ids s))"
    unfolding iteration_def by blast
  from sync_post_head [of env currentUsername post ids s] obtain tail where
    "trace (snd (sync_post env currentUsername post ids s)) =
       trace s @
       MetaobjectByHandle ''nn_instagram_post'' (currentUsername @ ''-post-'' @ post_id post)
         (fst (gql_metaobjectByHandle env ''nn_instagram_post''
                 (currentUsername @ ''-post-'' @ post_id post) (world s))) # tail"
    "list_all after_lookup tail"
    by blast
  with seg show ?thesis unfolding visit_def by (simp add: since_def)
qed





section \<open>The per-post loop\<close>

lemma for_each_post_traces:
  fixes env :: "'w env"
  shows "traces (for_each_post env currentUsername posts ids) (per_post_outcome env ids)"
proof (induction posts arbitrary: ids)
  case Nil
  show ?case by (simp add: traces_resolve per_post_outcome_def)
next
  case (Cons post rest)
  show ?case
    unfolding for_each_post.simps
    by (rule traces_await [OF sync_post_traces,
          where R = "\<lambda>ids'. per_post_outcome env ids'", OF Cons.IH])
       (auto simp add: per_post_outcome_def unhindered_def)
qed

text \<open>The loop runs the iterations one after the other, one for each post, in feed order.\<close>

lemma for_each_post_segments:
  fixes env :: "'w env"
  shows "traces (for_each_post env currentUsername posts ids)
     (\<lambda>r evs. \<exists>segments. evs = concat segments
                  \<and> loop_segments env currentUsername posts r segments)"
proof (induction posts arbitrary: ids)
  case Nil
  show ?case by (simp add: traces_resolve loop_segments_def)
next
  case (Cons post rest)
  show ?case
    unfolding for_each_post.simps
  proof (rule traces_await [OF sync_post_iteration Cons.IH])
    fix e :: js_exn and evs
    assume "iteration env currentUsername post evs"
    then have "evs = concat [evs] \<and> loop_segments env currentUsername (post # rest)
                 (Inl e :: js_exn + string list) [evs]"
      by (simp add: loop_segments_def)
    then show "\<exists>segments. evs = concat segments
        \<and> loop_segments env currentUsername (post # rest) (Inl e :: js_exn + string list) segments"
      by blast
  next
    fix x :: "string list" and evs1 and r :: "js_exn + string list" and evs2
    assume a: "iteration env currentUsername post evs1"
      and b: "\<exists>segments. evs2 = concat segments
                \<and> loop_segments env currentUsername rest r segments"
    from b obtain segments where c: "evs2 = concat segments"
      "loop_segments env currentUsername rest r segments" by blast
    with a have "evs1 @ evs2 = concat (evs1 # segments)
        \<and> loop_segments env currentUsername (post # rest) r (evs1 # segments)"
      by (simp add: loop_segments_def)
    then show "\<exists>segments. evs1 @ evs2 = concat segments
        \<and> loop_segments env currentUsername (post # rest) r segments"
      by blast
  qed
qed

section \<open>Account reconciliation\<close>

lemma traces_request_cases: "traces (request ask ev) (\<lambda>r evs. evs = [ev r])"
  by (rule traces_request) simp

text \<open>A teardown request followed by the rest of the teardown.\<close>

lemma teardown_step:
  fixes f :: "'a \<Rightarrow> (unit, 'w) io"
  assumes f: "\<And>x. traces (f x) (\<lambda>r evs. (r = Inr () \<and> G x evs) \<or> (isl r \<and> aborted evs))"
    and k: "\<And>reply. is_teardown_request (ev reply)"
    and a: "\<And>e. \<not> answered (ev (Inl e))"
  shows "traces (await (request ask ev) f)
     (\<lambda>r evs. (r = Inr () \<and> (\<exists>x tail. evs = ev (Inr x) # tail \<and> G x tail))
        \<or> (isl r \<and> aborted evs))"
proof (rule traces_await [OF traces_request_cases f])
  fix e :: js_exn and evs
  assume "evs = [ev (Inl e)]"
  then show "(Inl e = Inr () \<and> (\<exists>x tail. evs = ev (Inr x) # tail \<and> G x tail))
        \<or> (isl (Inl e :: js_exn + unit) \<and> aborted evs)"
    using k a by (simp add: aborted_def)
next
  fix x :: 'a and evs1 and r :: "js_exn + unit" and evs2
  assume "evs1 = [ev (Inr x)]"
    and "(r = Inr () \<and> G x evs2) \<or> (isl r \<and> aborted evs2)"
  then show "(r = Inr () \<and> (\<exists>x tail. evs1 @ evs2 = ev (Inr x) # tail \<and> G x tail))
        \<or> (isl r \<and> aborted (evs1 @ evs2))"
    using k by (auto simp add: aborted_def)
qed

text \<open>A part of the teardown followed by the rest of it.\<close>

lemma teardown_seq:
  fixes m :: "(unit, 'w) io" and f :: "unit \<Rightarrow> (unit, 'w) io"
  assumes m: "traces m (\<lambda>r evs. (r = Inr () \<and> A evs) \<or> (isl r \<and> aborted evs))"
    and f: "\<And>x. traces (f x) (\<lambda>r evs. (r = Inr () \<and> B evs) \<or> (isl r \<and> aborted evs))"
    and k: "\<And>evs. A evs \<Longrightarrow> list_all is_teardown_request evs"
  shows "traces (await m f)
     (\<lambda>r evs. (r = Inr () \<and> (\<exists>evs1 evs2. evs = evs1 @ evs2 \<and> A evs1 \<and> B evs2))
        \<or> (isl r \<and> aborted evs))"
proof (rule traces_await [OF m f])
  fix e :: js_exn and evs
  assume "(Inl e = Inr () \<and> A evs) \<or> (isl (Inl e :: js_exn + unit) \<and> aborted evs)"
  then show "(Inl e = Inr () \<and> (\<exists>evs1 evs2. evs = evs1 @ evs2 \<and> A evs1 \<and> B evs2))
        \<or> (isl (Inl e :: js_exn + unit) \<and> aborted evs)"
    by simp
next
  fix x :: unit and evs1 and r :: "js_exn + unit" and evs2
  assume 1: "(Inr x = Inr () \<and> A evs1) \<or> (isl (Inr x :: js_exn + unit) \<and> aborted evs1)"
    and 2: "(r = Inr () \<and> B evs2) \<or> (isl r \<and> aborted evs2)"
  from 1 have A: "A evs1" by simp
  from k [OF A] 2 A show
    "(r = Inr () \<and> (\<exists>e1 e2. evs1 @ evs2 = e1 @ e2 \<and> A e1 \<and> B e2))
        \<or> (isl r \<and> aborted (evs1 @ evs2))"
    by (auto simp add: aborted_def)
qed

text \<open>A last teardown request, which returns nothing.\<close>

lemma teardown_last:
  fixes ask :: "'w \<Rightarrow> (js_exn + unit) \<times> 'w"
  assumes k: "\<And>reply. is_teardown_request (ev reply)"
    and a: "\<And>e. \<not> answered (ev (Inl e))"
  shows "traces (request ask ev)
     (\<lambda>r evs. (r = Inr () \<and> evs = [ev (Inr ())]) \<or> (isl r \<and> aborted evs))"
proof (rule traces_request)
  fix w :: 'w
  show "(fst (ask w) = Inr () \<and> [ev (fst (ask w))] = [ev (Inr ())])
      \<or> (isl (fst (ask w)) \<and> aborted [ev (fst (ask w))])"
    using k a by (cases "fst (ask w)") (simp_all add: aborted_def)
qed

lemma teardown_nothing:
  "traces (resolve ()) (\<lambda>r evs. (r = Inr () \<and> evs = []) \<or> (isl r \<and> aborted evs))"
  by (simp add: traces_resolve)

lemma for_each_edge_traces:
  fixes env :: "'w env"
  shows "traces (for_each_edge env edges)
     (\<lambda>r evs. (r = Inr () \<and> evs = map (\<lambda>edge. MetaobjectDelete (fst edge) (Inr ())) edges)
        \<or> (isl r \<and> aborted evs))"
proof (induction edges)
  case Nil
  show ?case by (simp add: traces_resolve)
next
  case (Cons edge rest)
  have "traces (await (request (gql_metaobjectDelete env (fst edge)) (MetaobjectDelete (fst edge)))
                  (\<lambda>_. for_each_edge env rest))
     (\<lambda>r evs. (r = Inr ()
                 \<and> (\<exists>x tail. evs = MetaobjectDelete (fst edge) (Inr x) # tail
                      \<and> tail = map (\<lambda>edge. MetaobjectDelete (fst edge) (Inr ())) rest))
        \<or> (isl r \<and> aborted evs))"
    by (rule teardown_step
          [where G = "\<lambda>_ tail. tail = map (\<lambda>edge. MetaobjectDelete (fst edge) (Inr ())) rest",
           OF Cons.IH])
       simp_all
  then show ?case
    unfolding for_each_edge.simps by (rule traces_weaken) auto
qed

lemma teardown_events_kind:
  "list_all is_teardown_request (teardown_events oldUsername postEdges oldList fileEdges)"
  by (auto simp add: teardown_events_def Let_def list_all_iff split: option.splits)

lemma teardown_events_answered:
  "list_all answered (teardown_events oldUsername postEdges oldList fileEdges)"
  by (auto simp add: teardown_events_def Let_def list_all_iff split: option.splits)

lemma deleteOldAccountData_traces:
  fixes env :: "'w env"
  shows "traces (deleteOldAccountData env oldUsername) (teardown_outcome oldUsername)"
proof -
  let ?del = "\<lambda>edge :: Edge. MetaobjectDelete (fst edge) (Inr ())"
  let ?posts = "\<lambda>edges :: Edge list.
      filter (\<lambda>edge. starts_with (snd edge) (oldUsername @ ''-post-'')) edges"
  let ?old = "\<lambda>edges :: Edge list.
      filter (\<lambda>edge. starts_with (snd edge) (oldUsername @ ''-post_'')) edges"
  let ?q = "''alt:'' @ oldUsername @ ''-post_''"
  let ?h = "oldUsername @ ''-feed-list''"
  let ?filesDeleted = "\<lambda>edges.
      if ?old edges \<noteq> [] then [FileDelete (map fst (?old edges)) (Inr ())] else []"
  let ?listDeleted = "\<lambda>oldList. case oldList of
          None \<Rightarrow> []
        | Some metaobject \<Rightarrow>
            if mo_id metaobject \<noteq> [] then [MetaobjectDelete (mo_id metaobject) (Inr ())] else []"
  let ?deleteFiles = "\<lambda>edges.
      if ?old edges \<noteq> []
      then request (gql_fileDelete env (map fst (?old edges))) (FileDelete (map fst (?old edges)))
      else resolve ()"
  let ?deleteList = "\<lambda>oldList. case oldList of
              None \<Rightarrow> resolve ()
            | Some metaobject \<Rightarrow>
                if mo_id metaobject \<noteq> []
                then request (gql_metaobjectDelete env (mo_id metaobject))
                       (MetaobjectDelete (mo_id metaobject))
                else resolve ()"
  let ?files = "await (request (gql_files env 250 ?q) (FilesQuery 250 ?q)) ?deleteFiles"
  let ?filesDone = "\<lambda>evs. \<exists>x tail. evs = FilesQuery 250 ?q (Inr x) # tail \<and> tail = ?filesDeleted x"
  let ?list = "await (request (gql_metaobjectByHandle env ''nn_instagram_list'' ?h)
                        (MetaobjectByHandle ''nn_instagram_list'' ?h))
                 (\<lambda>oldList. await (?deleteList oldList) (\<lambda>_. ?files))"
  let ?listGone = "\<lambda>oldList evs. \<exists>evs1 evs2. evs = evs1 @ evs2 \<and> evs1 = ?listDeleted oldList
                      \<and> ?filesDone evs2"
  let ?listDone = "\<lambda>evs. \<exists>x tail. evs = MetaobjectByHandle ''nn_instagram_list'' ?h (Inr x) # tail
                      \<and> ?listGone x tail"
  let ?postsGone = "\<lambda>edges evs. \<exists>evs1 evs2. evs = evs1 @ evs2 \<and> evs1 = map ?del (?posts edges)
                      \<and> ?listDone evs2"
  have s5: "traces (?deleteFiles edges)
      (\<lambda>r evs. (r = Inr () \<and> evs = ?filesDeleted edges) \<or> (isl r \<and> aborted evs))" for edges
    by (simp add: teardown_last teardown_nothing)
  have s4: "traces ?files (\<lambda>r evs. (r = Inr () \<and> ?filesDone evs) \<or> (isl r \<and> aborted evs))"
    by (rule teardown_step [where G = "\<lambda>x tail. tail = ?filesDeleted x", OF s5]) simp_all
  have s3: "traces (?deleteList oldList)
      (\<lambda>r evs. (r = Inr () \<and> evs = ?listDeleted oldList) \<or> (isl r \<and> aborted evs))" for oldList
    by (cases oldList) (simp_all add: teardown_last teardown_nothing)
  have s3': "traces (await (?deleteList oldList) (\<lambda>_. ?files))
      (\<lambda>r evs. (r = Inr () \<and> ?listGone oldList evs) \<or> (isl r \<and> aborted evs))" for oldList
    by (rule teardown_seq [where A = "\<lambda>evs. evs = ?listDeleted oldList" and B = ?filesDone,
          OF s3 s4])
       (simp split: option.splits)
  have s2: "traces ?list (\<lambda>r evs. (r = Inr () \<and> ?listDone evs) \<or> (isl r \<and> aborted evs))"
    by (rule teardown_step [where G = ?listGone, OF s3']) simp_all
  have s1: "traces (await (for_each_edge env (?posts edges)) (\<lambda>_. ?list))
      (\<lambda>r evs. (r = Inr () \<and> ?postsGone edges evs) \<or> (isl r \<and> aborted evs))" for edges
    by (rule teardown_seq [where A = "\<lambda>evs. evs = map ?del (?posts edges)" and B = ?listDone,
          OF for_each_edge_traces s2])
       (simp add: list_all_iff)
  have s0: "traces
      (await (request (gql_metaobjects env ''nn_instagram_post'' 250)
                (MetaobjectsQuery ''nn_instagram_post'' 250))
         (\<lambda>edges. await (for_each_edge env (?posts edges)) (\<lambda>_. ?list)))
      (\<lambda>r evs. (r = Inr ()
                  \<and> (\<exists>x tail. evs = MetaobjectsQuery ''nn_instagram_post'' 250 (Inr x) # tail
                        \<and> ?postsGone x tail))
         \<or> (isl r \<and> aborted evs))"
    by (rule teardown_step [where G = ?postsGone, OF s1]) simp_all
  show ?thesis
    unfolding deleteOldAccountData_def Let_def
  proof (rule traces_weaken [OF s0])
    fix r :: "js_exn + unit" and evs
    assume "(r = Inr ()
              \<and> (\<exists>x tail. evs = MetaobjectsQuery ''nn_instagram_post'' 250 (Inr x) # tail
                    \<and> ?postsGone x tail))
         \<or> (isl r \<and> aborted evs)"
    then consider (complete) "r = Inr ()"
        "\<exists>x tail. evs = MetaobjectsQuery ''nn_instagram_post'' 250 (Inr x) # tail
            \<and> ?postsGone x tail"
      | (stopped) "isl r" "aborted evs"
      by blast
    then show "teardown_outcome oldUsername r evs"
    proof cases
      case stopped
      then show ?thesis by (simp add: teardown_outcome_def)
    next
      case complete
      from complete(2) obtain postEdges oldList fileEdges where
        "evs = MetaobjectsQuery ''nn_instagram_post'' 250 (Inr postEdges)
               # (map ?del (?posts postEdges)
                  @ (MetaobjectByHandle ''nn_instagram_list'' ?h (Inr oldList)
                     # (?listDeleted oldList
                        @ (FilesQuery 250 ?q (Inr fileEdges) # ?filesDeleted fileEdges))))"
        by blast
      then have "evs = teardown_events oldUsername postEdges oldList fileEdges"
        by (simp add: teardown_events_def Let_def)
      with complete(1) show ?thesis unfolding teardown_outcome_def by blast
    qed
  qed
qed

lemma reconcile_traces:
  fixes env :: "'w env"
  shows "traces
     (if truthy (account_username account) \<and> account_username account \<noteq> Some currentUsername
      then deleteOldAccountData env (the (account_username account))
      else resolve ())
     (\<lambda>r evs. (r = Inr ()
                 \<and> (if account_switch account currentUsername
                     then \<exists>postEdges oldList fileEdges.
                            evs = teardown_events (the (account_username account))
                                    postEdges oldList fileEdges
                     else evs = []))
        \<or> (isl r \<and> account_switch account currentUsername \<and> aborted evs))"
proof (cases "account_switch account currentUsername")
  case True
  then show ?thesis
    using deleteOldAccountData_traces [of env "the (account_username account)"]
    by (auto simp add: account_switch_def teardown_outcome_def elim!: traces_weaken)
next
  case False
  then show ?thesis
    by (auto simp add: account_switch_def intro!: traces_resolve)
qed

lemma update_traces:
  fixes env :: "'w env"
  shows "traces
     (if \<not> truthy (account_username account) \<or> account_username account \<noteq> Some currentUsername
      then updateAccountUsername env (account_id account) currentUsername
      else resolve ())
     (\<lambda>r evs.
        (r = Inr ()
         \<and> evs = (if \<not> truthy (account_username account)
                      \<or> account_username account \<noteq> Some currentUsername
                   then [DbUpdateUsername (account_id account) currentUsername (Inr ())]
                   else []))
        \<or> (\<exists>e. r = Inl e
              \<and> evs = [DbUpdateUsername (account_id account) currentUsername (Inl e)]))"
  unfolding traces_def
proof
  fix s :: "'w state"
  obtain r w' where a:
    "db_updateUsername env (account_id account) currentUsername (world s) = (r, w')"
    by fastforce
  let ?m = "if \<not> truthy (account_username account)
                \<or> account_username account \<noteq> Some currentUsername
      then updateAccountUsername env (account_id account) currentUsername
      else resolve ()"
  show "\<exists>evs. trace (snd (?m s)) = trace s @ evs \<and>
        ((fst (?m s) = Inr ()
         \<and> evs = (if \<not> truthy (account_username account)
                      \<or> account_username account \<noteq> Some currentUsername
                   then [DbUpdateUsername (account_id account) currentUsername (Inr ())]
                   else []))
        \<or> (\<exists>e. fst (?m s) = Inl e
              \<and> evs = [DbUpdateUsername (account_id account) currentUsername (Inl e)]))"
    using a by (cases r) (auto simp add: updateAccountUsername_def io_defs)
qed

section \<open>The whole feed\<close>

lemma aggregate_traces:
  fixes env :: "'w env"
  shows "traces
     (await (if ids \<noteq> []
             then await (upsertListMetaobject env igData ids currentUsername displayName)
                    (\<lambda>listResult. resolve ())
             else resolve ())
        (\<lambda>_. resolve (Synced currentUsername displayName)))
     (aggregate_outcome env igData currentUsername displayName ids)"
  unfolding traces_def
proof
  fix s :: "'w state"
  obtain r w' where a: "gql_metaobjectUpsert env ''nn_instagram_list''
      (currentUsername @ ''-feed-list'')
      (list_fields env igData ids currentUsername displayName) (world s) = (r, w')"
    by fastforce
  let ?m = "await (if ids \<noteq> []
             then await (upsertListMetaobject env igData ids currentUsername displayName)
                    (\<lambda>listResult. resolve ())
             else resolve ())
        (\<lambda>_. resolve (Synced currentUsername displayName))"
  show "\<exists>evs. trace (snd (?m s)) = trace s @ evs
      \<and> aggregate_outcome env igData currentUsername displayName ids (fst (?m s)) evs"
    using a
    by (auto simp add: upsertListMetaobject_def io_defs aggregate_outcome_def went_through_def
        split: sum.splits)
qed

lemma loop_traces:
  fixes env :: "'w env"
  shows "traces
     (await (for_each_post env currentUsername posts []) (\<lambda>postObjectIds.
        await (if postObjectIds \<noteq> []
               then await (upsertListMetaobject env igData postObjectIds currentUsername
                             displayName) (\<lambda>listResult. resolve ())
               else resolve ())
          (\<lambda>_. resolve (Synced currentUsername displayName))))
     (loop_outcome env igData currentUsername displayName posts)"
proof (rule traces_await [OF traces_conj [OF for_each_post_traces for_each_post_segments],
      where R = "aggregate_outcome env igData currentUsername displayName"])
  fix ids :: "string list"
  show "traces
          (await (if ids \<noteq> []
                  then await (upsertListMetaobject env igData ids currentUsername displayName)
                         (\<lambda>listResult. resolve ())
                  else resolve ())
             (\<lambda>_. resolve (Synced currentUsername displayName)))
          (aggregate_outcome env igData currentUsername displayName ids)"
    by (rule aggregate_traces)
next
  fix e :: js_exn and evs
  assume "per_post_outcome env [] (Inl e) evs
      \<and> (\<exists>segments. evs = concat segments
            \<and> loop_segments env currentUsername posts (Inl e :: js_exn + string list) segments)"
  then obtain segments where a: "per_post_outcome env [] (Inl e) evs" "evs = concat segments"
    "loop_segments env currentUsername posts (Inl e :: js_exn + string list) segments"
    by blast
  show "loop_outcome env igData currentUsername displayName posts (Inl e) evs"
    unfolding loop_outcome_def
    using a by (intro exI [of _ segments] exI [of _ "[]"])
      (simp add: per_post_outcome_def loop_segments_def)
next
  fix ids :: "string list" and evs1 r evs2
  assume "per_post_outcome env [] (Inr ids) evs1
      \<and> (\<exists>segments. evs1 = concat segments
            \<and> loop_segments env currentUsername posts (Inr ids :: js_exn + string list) segments)"
    and b: "aggregate_outcome env igData currentUsername displayName ids r evs2"
  then obtain segments where a: "per_post_outcome env [] (Inr ids) evs1"
    "evs1 = concat segments"
    "loop_segments env currentUsername posts (Inr ids :: js_exn + string list) segments"
    by blast
  from a(1) have ids: "ids = upserted_ids evs1" and k: "list_all is_per_post evs1"
    by (simp_all add: per_post_outcome_def)
  show "loop_outcome env igData currentUsername displayName posts r (evs1 @ evs2)"
    unfolding loop_outcome_def
    using b k ids a(2,3)
    by (intro exI [of _ segments] exI [of _ evs2])
       (auto simp add: aggregate_outcome_def loop_segments_def unhindered_def split: if_splits)
qed

lemma persist_traces:
  fixes env :: "'w env"
  shows "traces
     (await (if \<not> truthy (account_username account)
                \<or> account_username account \<noteq> Some currentUsername
             then updateAccountUsername env (account_id account) currentUsername
             else resolve ()) (\<lambda>_.
      await (for_each_post env currentUsername posts []) (\<lambda>postObjectIds.
        await (if postObjectIds \<noteq> []
               then await (upsertListMetaobject env igData postObjectIds currentUsername
                             displayName) (\<lambda>listResult. resolve ())
               else resolve ())
          (\<lambda>_. resolve (Synced currentUsername displayName)))))
     (persist_outcome env account igData currentUsername displayName posts)"
proof (rule traces_await [OF update_traces,
      where R = "\<lambda>_. loop_outcome env igData currentUsername displayName posts"])
  fix u :: unit
  show "traces
     (await (for_each_post env currentUsername posts []) (\<lambda>postObjectIds.
        await (if postObjectIds \<noteq> []
               then await (upsertListMetaobject env igData postObjectIds currentUsername
                             displayName) (\<lambda>listResult. resolve ())
               else resolve ())
          (\<lambda>_. resolve (Synced currentUsername displayName))))
     (loop_outcome env igData currentUsername displayName posts)"
    by (rule loop_traces)
next
  fix e :: js_exn and evs
  assume "(Inl e = Inr ()
         \<and> evs = (if \<not> truthy (account_username account)
                      \<or> account_username account \<noteq> Some currentUsername
                   then [DbUpdateUsername (account_id account) currentUsername (Inr ())]
                   else []))
        \<or> (\<exists>e'. (Inl e :: js_exn + unit) = Inl e'
              \<and> evs = [DbUpdateUsername (account_id account) currentUsername (Inl e')])"
  then show "persist_outcome env account igData currentUsername displayName posts (Inl e) evs"
    by (simp add: persist_outcome_def)
next
  fix x :: unit and evs1 r evs2
  assume a: "(Inr x = Inr ()
         \<and> evs1 = (if \<not> truthy (account_username account)
                      \<or> account_username account \<noteq> Some currentUsername
                   then [DbUpdateUsername (account_id account) currentUsername (Inr ())]
                   else []))
        \<or> (\<exists>e'. (Inr x :: js_exn + unit) = Inl e'
              \<and> evs1 = [DbUpdateUsername (account_id account) currentUsername (Inl e')])"
    and b: "loop_outcome env igData currentUsername displayName posts r evs2"
  from a have "evs1 = (if \<not> truthy (account_username account)
                      \<or> account_username account \<noteq> Some currentUsername
                   then [DbUpdateUsername (account_id account) currentUsername (Inr ())]
                   else [])"
    by simp
  with b show "persist_outcome env account igData currentUsername displayName posts r
                 (evs1 @ evs2)"
    unfolding persist_outcome_def by blast
qed

lemma sync_feed_traces:
  fixes env :: "'w env"
  shows "traces (sync_feed env account igData currentUsername displayName posts)
     (feed_outcome env account igData currentUsername displayName posts)"
  unfolding sync_feed_def
proof (rule traces_await [OF reconcile_traces,
      where R = "\<lambda>_. persist_outcome env account igData currentUsername displayName posts"])
  fix u :: unit
  show "traces
     (await (if \<not> truthy (account_username account)
                \<or> account_username account \<noteq> Some currentUsername
             then updateAccountUsername env (account_id account) currentUsername
             else resolve ()) (\<lambda>_.
      await (for_each_post env currentUsername posts []) (\<lambda>postObjectIds.
        await (if postObjectIds \<noteq> []
               then await (upsertListMetaobject env igData postObjectIds currentUsername
                             displayName) (\<lambda>listResult. resolve ())
               else resolve ())
          (\<lambda>_. resolve (Synced currentUsername displayName)))))
     (persist_outcome env account igData currentUsername displayName posts)"
    by (rule persist_traces)
next
  fix e :: js_exn and evs
  assume "(Inl e = Inr ()
                 \<and> (if account_switch account currentUsername
                     then \<exists>postEdges oldList fileEdges.
                            evs = teardown_events (the (account_username account))
                                    postEdges oldList fileEdges
                     else evs = []))
        \<or> (isl (Inl e :: js_exn + unit) \<and> account_switch account currentUsername \<and> aborted evs)"
  then show "feed_outcome env account igData currentUsername displayName posts (Inl e) evs"
    by (simp add: feed_outcome_def)
next
  fix x :: unit and evs1 r evs2
  assume a: "(Inr x = Inr ()
                 \<and> (if account_switch account currentUsername
                     then \<exists>postEdges oldList fileEdges.
                            evs1 = teardown_events (the (account_username account))
                                    postEdges oldList fileEdges
                     else evs1 = []))
        \<or> (isl (Inr x :: js_exn + unit) \<and> account_switch account currentUsername \<and> aborted evs1)"
    and b: "persist_outcome env account igData currentUsername displayName posts r evs2"
  from a have "if account_switch account currentUsername
                     then \<exists>postEdges oldList fileEdges.
                            evs1 = teardown_events (the (account_username account))
                                    postEdges oldList fileEdges
                     else evs1 = []"
    by simp
  with b show "feed_outcome env account igData currentUsername displayName posts r (evs1 @ evs2)"
    unfolding feed_outcome_def by blast
qed

section \<open>The whole run\<close>

lemma teardown_not_transfer: "is_teardown_request e \<Longrightarrow> \<not> is_transfer_request e"
  by (cases e) simp_all

lemma aborted_hindered: "aborted evs \<Longrightarrow> \<not> unhindered env evs"
  unfolding aborted_def unhindered_def went_through_def list_all_iff
  using teardown_not_transfer by blast

text \<open>The parts of the trace of \<^verbatim>\<open>sync_feed\<close>, whichever way it ended.\<close>

lemma feed_outcome_shape:
  assumes "feed_outcome env account igData currentUsername displayName posts r evs"
  shows "\<exists>teardown update segments final.
     feed_shape env account igData currentUsername displayName posts r evs
       teardown update segments final"
proof -
  from assms consider
    (stopped) "isl r" "account_switch account currentUsername" "aborted evs"
    | (went) teardown rest where "evs = teardown @ rest"
        "if account_switch account currentUsername
         then \<exists>postEdges oldList fileEdges.
                teardown = teardown_events (the (account_username account))
                             postEdges oldList fileEdges
         else teardown = []"
        "persist_outcome env account igData currentUsername displayName posts r rest"
    unfolding feed_outcome_def by blast
  then show ?thesis
  proof cases
    case stopped
    from stopped(3) have "list_all is_teardown_request evs" by (simp add: aborted_def)
    moreover from stopped(3) have "\<not> unhindered env evs" by (rule aborted_hindered)
    moreover from stopped(1) have "\<forall>result. r \<noteq> Inr result" by auto
    moreover note stopped(2)
    ultimately have "feed_shape env account igData currentUsername displayName posts r evs
        evs [] [] []"
      by (simp add: feed_shape_def)
    then show ?thesis by blast
  next
    case went
    have k: "list_all is_teardown_request teardown"
      "\<not> account_switch account currentUsername \<longrightarrow> teardown = []"
      using went(2) teardown_events_kind by (auto split: if_splits)
    from went(3) consider
      (failed) e where "r = Inl e"
        "rest = [DbUpdateUsername (account_id account) currentUsername (Inl e)]"
      | (updated) rest' where
        "rest = (if \<not> truthy (account_username account)
                    \<or> account_username account \<noteq> Some currentUsername
                 then [DbUpdateUsername (account_id account) currentUsername (Inr ())]
                 else []) @ rest'"
        "loop_outcome env igData currentUsername displayName posts r rest'"
      unfolding persist_outcome_def by blast
    then show ?thesis
    proof cases
      case failed
      have "\<not> unhindered env evs"
        using went(1) failed(2) by (simp add: unhindered_def went_through_def)
      with went(1) failed k have
        "feed_shape env account igData currentUsername displayName posts r evs
           teardown [DbUpdateUsername (account_id account) currentUsername (Inl e)] [] []"
        by (simp add: feed_shape_def)
      then show ?thesis by blast
    next
      case updated
      let ?update = "if \<not> truthy (account_username account)
                    \<or> account_username account \<noteq> Some currentUsername
                 then [DbUpdateUsername (account_id account) currentUsername (Inr ())]
                 else []"
      from updated(2) obtain segments final where loop:
        "rest' = concat segments @ final"
        "list_all2 (iteration env currentUsername) (take (length segments) posts) segments"
        "length segments \<le> length posts"
        "list_all is_per_post (concat segments)"
        "final = [] \<or>
            (\<exists>reply. final = [MetaobjectUpsert ''nn_instagram_list'' (currentUsername @ ''-feed-list'')
                         (list_fields env igData (upserted_ids (concat segments)) currentUsername
                            displayName)
                         reply])"
        "upserted_ids (concat segments) = [] \<longrightarrow> final = []"
        "\<forall>result. r = Inr result \<longrightarrow>
              result = Synced currentUsername displayName
              \<and> length segments = length posts
              \<and> (upserted_ids (concat segments) \<noteq> [] \<longrightarrow> final \<noteq> [])"
        "unhindered env rest' \<longrightarrow> \<not> isl r"
        unfolding loop_outcome_def by (elim exE conjE)
      have u: "list_all is_username_update ?update" by simp
      have e: "evs = teardown @ ?update @ concat segments @ final"
        using went(1) updated(1) loop(1) by simp
      have h: "unhindered env evs \<longrightarrow> \<not> isl r"
        using loop(8) unfolding e loop(1) by (simp add: unhindered_def)
      have "feed_shape env account igData currentUsername displayName posts r evs
           teardown ?update segments final"
        unfolding feed_shape_def
        using e k u loop(2-7) h by (intro conjI) assumption+
      then show ?thesis by blast
    qed
  qed
qed

lemma action_traces:
  fixes env :: "'w env"
  shows "traces (action env shop now) (run_outcome env shop)"
  unfolding traces_def
proof
  fix s :: "'w state"
  obtain r1 w1 where a1: "db_findAccount env shop (world s) = (r1, w1)" by fastforce
  let ?goal = "\<exists>evs. trace (snd (action env shop now s)) = trace s @ evs
                 \<and> run_outcome env shop (fst (action env shop now s)) evs"
  let ?early = "\<exists>evs. trace (snd (action env shop now s)) = trace s @ evs
                 \<and> list_all is_fetch evs
                 \<and> (\<forall>u d. fst (action env shop now s) \<noteq> Inr (Synced u d))"
  have early: "?early \<Longrightarrow> ?goal" unfolding run_outcome_def by blast
  show ?goal
  proof (cases "\<exists>row token. r1 = Inr (Some row)
                  \<and> decryptToken env (accessToken row) = Inr token
                  \<and> (case expiresAt row of None \<Rightarrow> True | Some t \<Rightarrow> \<not> t < now)")
    case False
    with a1 have ?early
      by (auto simp add: action_def getInstagramAccountWithToken_def io_defs
          split: sum.splits option.splits)
    then show ?thesis by (rule early)
  next
    case True
    then obtain row token where row: "r1 = Inr (Some row)"
      "decryptToken env (accessToken row) = Inr token"
      "case expiresAt row of None \<Rightarrow> True | Some t \<Rightarrow> \<not> t < now"
      by blast
    obtain r2 w2 where a2: "ig_fetchMedia env token w1 = (r2, w2)" by fastforce
    show ?thesis
    proof (cases "\<exists>igData. r2 = Inr igData \<and> media_error igData = None")
      case False
      with a1 row a2 have ?early
        by (auto simp add: action_def getInstagramAccountWithToken_def io_defs
            split: sum.splits option.splits)
      then show ?thesis by (rule early)
    next
      case True
      then obtain igData where igData: "r2 = Inr igData" "media_error igData = None" by blast
      obtain r3 w3 where a3: "ig_fetchProfile env token w2 = (r3, w3)" by fastforce
      show ?thesis
      proof (cases "\<exists>userData. r3 = Inr userData \<and> profile_error userData = None
                      \<and> (\<exists>post rest. media_data igData = Some (post # rest))")
        case False
        with a1 row a2 igData a3 have ?early
          by (auto simp add: action_def getInstagramAccountWithToken_def io_defs
              split: sum.splits option.splits list.splits)
        then show ?thesis by (rule early)
      next
        case True
        then obtain userData post rest where userData: "r3 = Inr userData"
          "profile_error userData = None" "media_data igData = Some (post # rest)"
          by blast
        let ?account = "row\<lparr>accessToken := token\<rparr>"
        let ?s3 = "\<lparr>trace = trace s @ fetch_events shop row token igData userData, world = w3\<rparr>"
        let ?feed = "sync_feed env ?account igData (profile_username userData)
                       (profile_name userData) (post # rest)"
        have run: "action env shop now s = ?feed ?s3"
          using a1 row a2 igData a3 userData
          by (auto simp add: action_def getInstagramAccountWithToken_def io_defs fetch_events_def
              split: option.splits)
        from sync_feed_traces [of env ?account igData "profile_username userData"
            "profile_name userData" "post # rest"]
        obtain evs where evs: "trace (snd (?feed ?s3)) = trace ?s3 @ evs"
          "feed_outcome env ?account igData (profile_username userData) (profile_name userData)
             (post # rest) (fst (?feed ?s3)) evs"
          unfolding traces_def by blast
        have "trace (snd (action env shop now s))
                = trace s @ (fetch_events shop row token igData userData @ evs)"
          using run evs(1) by simp
        moreover have "run_outcome env shop (fst (action env shop now s))
                (fetch_events shop row token igData userData @ evs)"
          unfolding run_outcome_def using run evs(2) userData(3) by auto
        ultimately show ?thesis by blast
      qed
    qed
  qed
qed

lemma run_traces:
  "\<exists>evs. trace (snd (run env shop now w)) = evs \<and> run_outcome env shop (fst (run env shop now w)) evs"
  using action_traces [of env shop now] unfolding traces_def run_def
  by (metis append_Nil state.select_convs(1))

lemma fetch_kind:
  "is_fetch e \<Longrightarrow>
     \<not> is_list_upsert e \<and> \<not> is_post_upsert e \<and> \<not> is_delete e \<and> \<not> is_per_post e
     \<and> upserted_id e = []"
  by (cases e) (simp_all add: is_per_post_def)

lemma teardown_kind:
  "is_teardown_request e \<Longrightarrow>
     \<not> is_list_upsert e \<and> \<not> is_post_upsert e \<and> \<not> is_per_post e \<and> upserted_id e = []"
  by (cases e) (simp_all add: is_per_post_def)

lemma update_kind:
  "is_username_update e \<Longrightarrow>
     \<not> is_list_upsert e \<and> \<not> is_post_upsert e \<and> \<not> is_delete e \<and> \<not> is_per_post e
     \<and> upserted_id e = []"
  by (cases e) (simp_all add: is_per_post_def)

lemma per_post_kind: "is_per_post e \<Longrightarrow> \<not> is_list_upsert e \<and> \<not> is_delete e"
  by (cases e) (simp_all add: is_per_post_def)

lemma upserted_ids_empty: "\<forall>e \<in> set evs. upserted_id e = [] \<Longrightarrow> upserted_ids evs = []"
  by (induction evs) simp_all

lemma upserted_id_subset: "e \<in> set evs \<Longrightarrow> set (upserted_id e) \<subseteq> set (upserted_ids evs)"
  by (induction evs) auto

lemma upserted_id_source:
  assumes "i \<in> set (upserted_id e)"
  shows "\<exists>handle fs payload.
        e = MetaobjectUpsert ''nn_instagram_post'' handle fs (Inr (Some payload))
        \<and> upsert_userErrors payload = [] \<and> metaobject_id payload = Some i"
proof (cases e)
  case (MetaobjectUpsert type handle fs reply)
  with assms have t: "type = ''nn_instagram_post''"
    by (cases "type = ''nn_instagram_post''") simp_all
  with assms MetaobjectUpsert obtain result where r: "reply = Inr result"
    by (cases reply) simp_all
  with assms MetaobjectUpsert t obtain payload where p: "result = Some payload"
    by (cases result) (simp_all add: push_metaobjectId_def)
  have "upsert_userErrors payload = []"
    using assms MetaobjectUpsert t r p
    by (cases "upsert_userErrors payload = []") (simp_all add: push_metaobjectId_def)
  moreover from this have "metaobject_id payload = Some i"
    using assms MetaobjectUpsert t r p
    by (cases "metaobject_id payload"; cases "the (metaobject_id payload) = []")
       (simp_all add: push_metaobjectId_def)
  ultimately show ?thesis using MetaobjectUpsert t r p by simp
qed (use assms in simp_all)

lemma upserted_ids_source:
  "i \<in> set (upserted_ids evs) \<Longrightarrow>
     \<exists>handle fs payload.
        MetaobjectUpsert ''nn_instagram_post'' handle fs (Inr (Some payload)) \<in> set evs
        \<and> upsert_userErrors payload = [] \<and> metaobject_id payload = Some i"
proof -
  assume "i \<in> set (upserted_ids evs)"
  then obtain e where e: "e \<in> set evs" "i \<in> set (upserted_id e)"
    by (auto simp add: upserted_ids_def)
  from upserted_id_source [OF e(2)] e(1) show ?thesis by blast
qed

lemma fetch_events_kind: "list_all is_fetch (fetch_events shop row token igData userData)"
  by (simp add: fetch_events_def)

lemma feed_upserted_ids:
  assumes "list_all is_fetch fetch" "list_all is_teardown_request teardown"
    "list_all is_username_update update"
    "final = [] \<or> (\<exists>h fs reply. final = [MetaobjectUpsert ''nn_instagram_list'' h fs reply])"
  shows "upserted_ids (fetch @ teardown @ update @ loop @ final) = upserted_ids loop"
proof -
  have "upserted_ids fetch = []" "upserted_ids teardown = []" "upserted_ids update = []"
    using assms(1-3)
    by (auto intro!: upserted_ids_empty simp add: list_all_iff fetch_kind teardown_kind update_kind)
  moreover have "upserted_ids final = []" using assms(4) by auto
  ultimately show ?thesis by simp
qed

text \<open>A run that passed its gates with posts goes on as \<^verbatim>\<open>sync_feed\<close>.\<close>

lemma run_fetched:
  assumes "fetched env shop now w row token igData userData w'"
    and "media_data igData = Some (post # rest)"
  shows "run env shop now w =
     sync_feed env (row\<lparr>accessToken := token\<rparr>) igData (profile_username userData)
       (profile_name userData) (post # rest)
       \<lparr>trace = fetch_events shop row token igData userData, world = w'\<rparr>"
  using assms
  by (auto simp add: fetched_def run_def action_def getInstagramAccountWithToken_def io_defs
      fetch_events_def split: option.splits)







text \<open>
  C3, for a run with posts whose teardown requests are answered. When the run passes
  its gates with at least one post, the stored username \<open>oldUsername\<close> is not empty and
  differs from the fetched one, and every request of the teardown is answered, the run
  first enumerates the post records and deletes each one whose handle starts with
  \<^verbatim>\<open>{old}-post-\<close>, looks up \<^verbatim>\<open>{old}-feed-list\<close> and deletes it if it is there,
  enumerates the files and deletes in one request those whose alt text starts with
  \<^verbatim>\<open>{old}-post_\<close>; only then it sends the update that stores the fetched username,
  and everything after that is the per-post loop and the list upsert (nothing, when
  that update was rejected).
\<close>

theorem account_switch_teardown_first:
  assumes fetched: "fetched env shop now w row token igData userData w'"
    and posts: "media_data igData = Some (post # rest)"
    and stored: "account_username row = Some oldUsername" "oldUsername \<noteq> []"
       "oldUsername \<noteq> profile_username userData"
    and answered: "\<forall>e \<in> set (trace (snd (run env shop now w))).
                     is_teardown_request e \<longrightarrow> answered e"
  shows "\<exists>postEdges oldList fileEdges reply loop.
     trace (snd (run env shop now w)) =
         fetch_events shop row token igData userData
         @ teardown_events oldUsername postEdges oldList fileEdges
         @ DbUpdateUsername (account_id row) (profile_username userData) reply # loop
     \<and> list_all (\<lambda>e. is_per_post e \<or> is_list_upsert e) loop
     \<and> (isl reply \<longrightarrow> loop = [])"
proof -
  let ?account = "row\<lparr>accessToken := token\<rparr>"
  let ?Y = "profile_username userData"
  let ?name = "profile_name userData"
  let ?fetch = "fetch_events shop row token igData userData"
  let ?s = "\<lparr>trace = ?fetch, world = w'\<rparr>"
  let ?feed = "sync_feed env ?account igData ?Y ?name (post # rest)"
  let ?T = "trace (snd (run env shop now w))"
  have run: "run env shop now w = ?feed ?s"
    by (rule run_fetched [OF fetched posts])
  from sync_feed_traces [of env ?account igData ?Y ?name "post # rest"]
  obtain evs where evs: "trace (snd (?feed ?s)) = trace ?s @ evs"
    "feed_outcome env ?account igData ?Y ?name (post # rest) (fst (?feed ?s)) evs"
    unfolding traces_def by blast
  have T: "?T = ?fetch @ evs" using run evs(1) by simp
  have switch: "account_switch ?account ?Y"
    using stored by (simp add: account_switch_def truthy_def)
  have needed: "\<not> truthy (account_username ?account) \<or> account_username ?account \<noteq> Some ?Y"
    using stored by simp
  have "\<not> aborted evs"
  proof
    assume "aborted evs"
    then obtain e where "e \<in> set evs" "is_teardown_request e" "\<not> answered e"
      unfolding aborted_def list_all_iff by blast
    with answered T show False by auto
  qed
  with evs(2) have "\<exists>teardown rest'.
      evs = teardown @ rest'
      \<and> (if account_switch ?account ?Y
          then \<exists>postEdges oldList fileEdges.
                 teardown = teardown_events (the (account_username ?account))
                              postEdges oldList fileEdges
          else teardown = [])
      \<and> persist_outcome env ?account igData ?Y ?name (post # rest) (fst (?feed ?s)) rest'"
    unfolding feed_outcome_def by blast
  then obtain teardown rest' where went:
    "evs = teardown @ rest'"
    "if account_switch ?account ?Y
     then \<exists>postEdges oldList fileEdges.
            teardown = teardown_events (the (account_username ?account))
                         postEdges oldList fileEdges
     else teardown = []"
    "persist_outcome env ?account igData ?Y ?name (post # rest) (fst (?feed ?s)) rest'"
    by blast
  from went(2) switch stored(1) obtain postEdges oldList fileEdges where
    teardown: "teardown = teardown_events oldUsername postEdges oldList fileEdges"
    by auto
  from went(3) consider
    (failed) e where "rest' = [DbUpdateUsername (account_id ?account) ?Y (Inl e)]"
    | (updated) rest'' where
        "rest' = (if \<not> truthy (account_username ?account)
                     \<or> account_username ?account \<noteq> Some ?Y
                  then [DbUpdateUsername (account_id ?account) ?Y (Inr ())]
                  else []) @ rest''"
        "loop_outcome env igData ?Y ?name (post # rest) (fst (?feed ?s)) rest''"
    unfolding persist_outcome_def by blast
  then show ?thesis
  proof cases
    case failed
    have "?T = ?fetch @ teardown_events oldUsername postEdges oldList fileEdges
               @ DbUpdateUsername (account_id row) ?Y (Inl e) # []"
      using T went(1) teardown failed by simp
    moreover have "list_all (\<lambda>e. is_per_post e \<or> is_list_upsert e) []" by simp
    ultimately show ?thesis by blast
  next
    case updated
    from updated(2) obtain segments final where loop:
      "rest'' = concat segments @ final"
      "list_all is_per_post (concat segments)"
      "final = [] \<or>
            (\<exists>reply. final = [MetaobjectUpsert ''nn_instagram_list'' (?Y @ ''-feed-list'')
                         (list_fields env igData (upserted_ids (concat segments)) ?Y ?name)
                         reply])"
      unfolding loop_outcome_def by blast
    have "?T = ?fetch @ teardown_events oldUsername postEdges oldList fileEdges
               @ DbUpdateUsername (account_id row) ?Y (Inr ()) # rest''"
      using T went(1) teardown updated(1) needed by simp
    moreover have "list_all (\<lambda>e. is_per_post e \<or> is_list_upsert e) rest''"
      using loop by (auto simp add: list_all_iff)
    moreover have "isl (Inr () :: js_exn + unit) \<longrightarrow> rest'' = []" by simp
    ultimately show ?thesis by blast
  qed
qed

theorem account_switch_teardown_first_witness:
  "trace (snd (run (sample_env (Some alice_row) (feed_of [sunset_post])) ''shop.example'' 1000 ()))
   = [DbFindAccount ''shop.example'' (Inr (Some alice_row)),
      IgFetchMedia ''IGQ'' (Inr (feed_of [sunset_post])),
      IgFetchProfile ''IGQ'' (Inr bob_profile),
      MetaobjectsQuery ''nn_instagram_post'' 250
        (Inr [(''gid://metaobject/alice-post-7'', Some ''alice-post-7''),
              (''gid://metaobject/carol-post-9'', Some ''carol-post-9'')]),
      MetaobjectDelete ''gid://metaobject/alice-post-7'' (Inr ()),
      MetaobjectByHandle ''nn_instagram_list'' ''alice-feed-list''
        (Inr (Some \<lparr>mo_id = ''gid://metaobject/alice-feed-list'',
                     mo_handle = ''alice-feed-list'', mo_fields = []\<rparr>)),
      MetaobjectDelete ''gid://metaobject/alice-feed-list'' (Inr ()),
      FilesQuery 250 ''alt:alice-post_''
        (Inr [(''gid://file/alice-post_7'', Some ''alice-post_7''), (''gid://file/logo'', None)]),
      FileDelete [''gid://file/alice-post_7''] (Inr ()),
      DbUpdateUsername ''acct-1'' ''bob'' (Inr ()),
      MetaobjectByHandle ''nn_instagram_post'' ''bob-post-101''
        (Inr (Some \<lparr>mo_id = ''gid://metaobject/bob-post-101'', mo_handle = ''bob-post-101'',
                     mo_fields =
                       [(''caption'', ''Dawn''),
                        (''images'', sample_stringify_ids [''gid://file/bob-post_101''])]\<rparr>)),
      MetaobjectUpsert ''nn_instagram_post'' ''bob-post-101''
        [(''data'', ''{id:101}''),
         (''images'', sample_stringify_ids [''gid://file/bob-post_101'']),
         (''caption'', ''Sunset''), (''likes'', ''12''), (''comments'', ''3'')]
        (Inr (Some \<lparr>metaobject_id = Some ''gid://metaobject/bob-post-101'',
                     upsert_userErrors = []\<rparr>)),
      MetaobjectUpsert ''nn_instagram_list'' ''bob-feed-list''
        [(''data'', ''{data}''),
         (''posts'', sample_stringify_ids [''gid://metaobject/bob-post-101'']),
         (''username'', ''bob''), (''name'', ''Bob B'')]
        (Inr (Some \<lparr>metaobject_id = Some ''gid://metaobject/bob-feed-list'',
                     upsert_userErrors = []\<rparr>))]"
proof -
  let ?env = "sample_env (Some alice_row) (feed_of [sunset_post])"
  have a: "fetched ?env ''shop.example'' 1000 () alice_row ''IGQ'' (feed_of [sunset_post])
             bob_profile ()"
    by (simp add: fetched_def decryptToken_def getEncryptionKey_def sample_defs)
  have b: "media_data (feed_of [sunset_post]) = Some (sunset_post # [])"
    by (simp add: feed_of_def)
  have c: "account_username alice_row = Some ''alice''" by (simp add: alice_row_def)
  have d: "''alice'' \<noteq> []" by simp
  have e: "''alice'' \<noteq> profile_username bob_profile" by (simp add: bob_profile_def)
  have f: "\<forall>e \<in> set (trace (snd (run ?env ''shop.example'' 1000 ()))).
             is_teardown_request e \<longrightarrow> answered e"
    by (simp add: sync_defs io_defs sample_defs nat_toString.simps digit_def)
  from account_switch_teardown_first [OF a b c d e f] show ?thesis
    by (simp add: sync_defs io_defs sample_defs nat_toString.simps digit_def)
qed

text \<open>
  C3 as stated fails in three ways, each with a stored username that differs from the
  fetched username \<^verbatim>\<open>bob\<close>, in a shop that holds post records, a list record and a
  file of former accounts. With the stored username \<^verbatim>\<open>alice\<close> and an empty feed the
  run ends after its three reads: nothing is deleted and the stored username stays.
  With one post, when the store rejects the deletion of the list record of \<^verbatim>\<open>alice\<close>,
  the run throws there: the post record is gone, the list record and the file stay,
  the fetched username is not stored and no post is processed. With the stored username
  \<^verbatim>\<open>carol\<close> and one post, when the database rejects the update of the username, the
  teardown is complete but the fetched username is not stored and no post is processed.
\<close>

theorem account_switch_teardown_incomplete:
  "account_username alice_row = Some ''alice'' \<and> account_username carol_row = Some ''carol''
   \<and> profile_username bob_profile = ''bob''
   \<and> run (sample_env (Some alice_row) (feed_of [])) ''shop.example'' 1000 () =
     (Inr (NoPostsFound 0),
      \<lparr>trace =
         [DbFindAccount ''shop.example'' (Inr (Some alice_row)),
          IgFetchMedia ''IGQ'' (Inr (feed_of [])),
          IgFetchProfile ''IGQ'' (Inr bob_profile)],
       world = ()\<rparr>)
   \<and> run (faulty_env (Some alice_row) (feed_of [sunset_post])) ''shop.example'' 1000 () =
     (Inl (Error ''Throttled''),
      \<lparr>trace =
         [DbFindAccount ''shop.example'' (Inr (Some alice_row)),
          IgFetchMedia ''IGQ'' (Inr (feed_of [sunset_post])),
          IgFetchProfile ''IGQ'' (Inr bob_profile),
          MetaobjectsQuery ''nn_instagram_post'' 250
            (Inr [(''gid://metaobject/alice-post-7'', Some ''alice-post-7''),
                  (''gid://metaobject/carol-post-9'', Some ''carol-post-9'')]),
          MetaobjectDelete ''gid://metaobject/alice-post-7'' (Inr ()),
          MetaobjectByHandle ''nn_instagram_list'' ''alice-feed-list''
            (Inr (Some \<lparr>mo_id = ''gid://metaobject/alice-feed-list'',
                         mo_handle = ''alice-feed-list'', mo_fields = []\<rparr>)),
          MetaobjectDelete ''gid://metaobject/alice-feed-list'' (Inl (Error ''Throttled''))],
       world = ()\<rparr>)
   \<and> run (faulty_env (Some carol_row) (feed_of [sunset_post])) ''shop.example'' 1000 () =
     (Inl (Error ''Database is locked''),
      \<lparr>trace =
         [DbFindAccount ''shop.example'' (Inr (Some carol_row)),
          IgFetchMedia ''IGQ'' (Inr (feed_of [sunset_post])),
          IgFetchProfile ''IGQ'' (Inr bob_profile),
          MetaobjectsQuery ''nn_instagram_post'' 250
            (Inr [(''gid://metaobject/alice-post-7'', Some ''alice-post-7''),
                  (''gid://metaobject/carol-post-9'', Some ''carol-post-9'')]),
          MetaobjectDelete ''gid://metaobject/carol-post-9'' (Inr ()),
          MetaobjectByHandle ''nn_instagram_list'' ''carol-feed-list'' (Inr None),
          FilesQuery 250 ''alt:carol-post_''
            (Inr [(''gid://file/alice-post_7'', Some ''alice-post_7''),
                  (''gid://file/logo'', None)]),
          DbUpdateUsername ''acct-1'' ''bob'' (Inl (Error ''Database is locked''))],
       world = ()\<rparr>)"
  by (simp add: sync_defs io_defs sample_defs)

text \<open>
  C4, for a run in which nothing throws. In a run in which no request outside the media
  transfers is rejected and every \<^verbatim>\<open>images\<close> field read back parses, in which the
  upsert of a post \<open>A\<close> is answered with user errors and the upsert of a post \<open>B\<close> with
  the identifier \<open>idB\<close>: the run returns its success result; its trace is the three
  reads, the account reconciliation, one segment for every post of the feed, in feed
  order, each starting with the lookup of that post, and last the list upsert. The list
  of post references written there is the list of identifiers that the per-post upserts
  of this run returned: it contains \<open>idB\<close>, and each of its members was returned by an
  upsert that was answered without user errors, so none comes from the upsert of \<open>A\<close>.
\<close>

theorem failed_upsert_is_left_out:
  assumes unhindered: "unhindered env (trace (snd (run env shop now w)))"
    and failed: "MetaobjectUpsert ''nn_instagram_post'' handleA fieldsA (Inr (Some payloadA))
                   \<in> set (trace (snd (run env shop now w)))"
       "upsert_userErrors payloadA \<noteq> []"
    and succeeded: "MetaobjectUpsert ''nn_instagram_post'' handleB fieldsB
                      (Inr (Some \<lparr>metaobject_id = Some idB, upsert_userErrors = []\<rparr>))
                   \<in> set (trace (snd (run env shop now w)))"
       "idB \<noteq> []"
  shows "\<exists>row token igData userData posts reconcile segments ids reply.
     fst (run env shop now w) =
       Inr (Synced (profile_username userData) (profile_name userData))
     \<and> media_data igData = Some posts
     \<and> trace (snd (run env shop now w)) =
         fetch_events shop row token igData userData @ reconcile @ concat segments
         @ [MetaobjectUpsert ''nn_instagram_list'' (profile_username userData @ ''-feed-list'')
              [(''data'', JSON_stringify_feed env igData),
               (''posts'', JSON_stringify_ids env ids),
               (''username'', or_else (profile_username userData) ''instagram_user''),
               (''name'', or_else (profile_name userData) ''Instagram User'')] reply]
     \<and> list_all (\<lambda>e. is_teardown_request e \<or> is_username_update e) reconcile
     \<and> list_all2 (visit (profile_username userData)) posts segments
     \<and> ids = upserted_ids (concat segments)
     \<and> idB \<in> set ids
     \<and> (\<forall>i \<in> set ids. \<exists>handle fs payload.
           MetaobjectUpsert ''nn_instagram_post'' handle fs (Inr (Some payload))
             \<in> set (concat segments)
           \<and> upsert_userErrors payload = [] \<and> metaobject_id payload = Some i)"
proof -
  let ?T = "trace (snd (run env shop now w))"
  let ?r = "fst (run env shop now w)"
  let ?eB = "MetaobjectUpsert ''nn_instagram_post'' handleB fieldsB
               (Inr (Some \<lparr>metaobject_id = Some idB, upsert_userErrors = []\<rparr>))"
  have B: "upserted_id ?eB = [idB]" using succeeded(2) by (simp add: push_metaobjectId_def)
  have member: "idB \<in> set (upserted_ids ?T)"
    using upserted_id_subset [OF succeeded(1)] B by simp
  from run_traces [of env shop now w] have "run_outcome env shop ?r ?T" by simp
  then consider (early) "list_all is_fetch ?T"
    | (feed) row token igData userData posts rest where
        "?T = fetch_events shop row token igData userData @ rest"
        "media_data igData = Some posts"
        "feed_outcome env (row\<lparr>accessToken := token\<rparr>) igData
           (profile_username userData) (profile_name userData) posts ?r rest"
    unfolding run_outcome_def by blast
  then show ?thesis
  proof cases
    case early
    with succeeded(1) have "is_fetch ?eB" unfolding list_all_iff by blast
    then show ?thesis by simp
  next
    case feed
    let ?account = "row\<lparr>accessToken := token\<rparr>"
    let ?Y = "profile_username userData"
    let ?name = "profile_name userData"
    let ?fetch = "fetch_events shop row token igData userData"
    from feed_outcome_shape [OF feed(3)] obtain teardown update segments final where
      "feed_shape env ?account igData ?Y ?name posts ?r rest teardown update segments final"
      by blast
    then have shape:
      "rest = teardown @ update @ concat segments @ final"
      "list_all is_teardown_request teardown"
      "list_all is_username_update update"
      "list_all2 (iteration env ?Y) (take (length segments) posts) segments"
      "final = [] \<or>
       (\<exists>reply. final = [MetaobjectUpsert ''nn_instagram_list'' (?Y @ ''-feed-list'')
                    (list_fields env igData (upserted_ids (concat segments)) ?Y ?name) reply])"
      "\<forall>result. ?r = Inr result \<longrightarrow>
           result = Synced ?Y ?name
           \<and> length segments = length posts
           \<and> (upserted_ids (concat segments) \<noteq> [] \<longrightarrow> final \<noteq> [])"
      "unhindered env rest \<longrightarrow> \<not> isl ?r"
      unfolding feed_shape_def by simp_all
    have ids: "upserted_ids ?T = upserted_ids (concat segments)"
      unfolding feed(1) shape(1)
      using fetch_events_kind shape(2,3,5) by (intro feed_upserted_ids) auto
    have "unhindered env rest"
      using unhindered unfolding feed(1) by (simp add: unhindered_def)
    with shape(7) obtain result where result: "?r = Inr result" by (cases ?r) auto
    with shape(6) have synced: "?r = Inr (Synced ?Y ?name)"
      and all: "length segments = length posts"
      and sent: "upserted_ids (concat segments) \<noteq> [] \<longrightarrow> final \<noteq> []"
      by simp_all
    from member ids have inB: "idB \<in> set (upserted_ids (concat segments))" by simp
    then have "upserted_ids (concat segments) \<noteq> []" by auto
    with sent shape(5) obtain reply where
      "final = [MetaobjectUpsert ''nn_instagram_list'' (?Y @ ''-feed-list'')
                    (list_fields env igData (upserted_ids (concat segments)) ?Y ?name) reply]"
      by blast
    then have final:
      "final = [MetaobjectUpsert ''nn_instagram_list'' (?Y @ ''-feed-list'')
                  [(''data'', JSON_stringify_feed env igData),
                   (''posts'', JSON_stringify_ids env (upserted_ids (concat segments))),
                   (''username'', or_else ?Y ''instagram_user''),
                   (''name'', or_else ?name ''Instagram User'')] reply]"
      by (simp add: list_fields_def)
    have T: "?T = ?fetch @ (teardown @ update) @ concat segments
               @ [MetaobjectUpsert ''nn_instagram_list'' (?Y @ ''-feed-list'')
                  [(''data'', JSON_stringify_feed env igData),
                   (''posts'', JSON_stringify_ids env (upserted_ids (concat segments))),
                   (''username'', or_else ?Y ''instagram_user''),
                   (''name'', or_else ?name ''Instagram User'')] reply]"
      using feed(1) shape(1) final by simp
    have reconcile: "list_all (\<lambda>e. is_teardown_request e \<or> is_username_update e)
                       (teardown @ update)"
      using shape(2,3) by (auto simp add: list_all_iff)
    have visits: "list_all2 (visit ?Y) posts segments"
      using shape(4) all by (auto intro: list_all2_mono iteration_visit)
    have sources: "\<forall>i \<in> set (upserted_ids (concat segments)). \<exists>handle fs payload.
           MetaobjectUpsert ''nn_instagram_post'' handle fs (Inr (Some payload))
             \<in> set (concat segments)
           \<and> upsert_userErrors payload = [] \<and> metaobject_id payload = Some i"
      using upserted_ids_source by blast
    from synced feed(2) T reconcile visits inB sources show ?thesis by blast
  qed
qed

theorem failed_upsert_is_left_out_witness:
  "unhindered (sample_env (Some bob_row) (feed_of [bare_post, sunset_post]))
     (trace (snd (run (sample_env (Some bob_row) (feed_of [bare_post, sunset_post]))
                    ''shop.example'' 1000 ())))
   \<and> run (sample_env (Some bob_row) (feed_of [bare_post, sunset_post])) ''shop.example'' 1000 ()
     = (Inr (Synced ''bob'' ''Bob B''),
        \<lparr>trace =
           [DbFindAccount ''shop.example'' (Inr (Some bob_row)),
            IgFetchMedia ''IGQ'' (Inr (feed_of [bare_post, sunset_post])),
            IgFetchProfile ''IGQ'' (Inr bob_profile),
            MetaobjectByHandle ''nn_instagram_post'' ''bob-post-102'' (Inr None),
            FileCreate ''bob-post_102'' ''IMAGE'' ''https://cdn.example/102.jpg''
              (Inr (Some \<lparr>files = Some [''gid://file/bob-post_102''], file_userErrors = []\<rparr>)),
            UploadMediaFile ''https://cdn.example/102.jpg'' ''IMAGE'' ''bob-post_102''
              (Some \<lparr>files = Some [''gid://file/bob-post_102''], file_userErrors = []\<rparr>),
            MetaobjectUpsert ''nn_instagram_post'' ''bob-post-102''
              [(''data'', ''{id:102}''),
               (''images'', sample_stringify_ids [''gid://file/bob-post_102'']),
               (''caption'', ''No caption''), (''likes'', ''undefined''),
               (''comments'', ''undefined'')]
              (Inr (Some \<lparr>metaobject_id = None, upsert_userErrors = [''Value is invalid'']\<rparr>)),
            MetaobjectByHandle ''nn_instagram_post'' ''bob-post-101''
              (Inr (Some \<lparr>mo_id = ''gid://metaobject/bob-post-101'',
                           mo_handle = ''bob-post-101'',
                           mo_fields =
                             [(''caption'', ''Dawn''),
                              (''images'',
                               sample_stringify_ids [''gid://file/bob-post_101''])]\<rparr>)),
            MetaobjectUpsert ''nn_instagram_post'' ''bob-post-101''
              [(''data'', ''{id:101}''),
               (''images'', sample_stringify_ids [''gid://file/bob-post_101'']),
               (''caption'', ''Sunset''), (''likes'', ''12''), (''comments'', ''3'')]
              (Inr (Some \<lparr>metaobject_id = Some ''gid://metaobject/bob-post-101'',
                           upsert_userErrors = []\<rparr>)),
            MetaobjectUpsert ''nn_instagram_list'' ''bob-feed-list''
              [(''data'', ''{data}''),
               (''posts'', sample_stringify_ids [''gid://metaobject/bob-post-101'']),
               (''username'', ''bob''), (''name'', ''Bob B'')]
              (Inr (Some \<lparr>metaobject_id = Some ''gid://metaobject/bob-feed-list'',
                           upsert_userErrors = []\<rparr>))],
         world = ()\<rparr>)"
proof -
  let ?env = "sample_env (Some bob_row) (feed_of [bare_post, sunset_post])"
  let ?T = "trace (snd (run ?env ''shop.example'' 1000 ()))"
  have a: "unhindered ?env ?T"
    by (simp add: unhindered_def went_through_def sync_defs io_defs sample_defs
        nat_toString.simps digit_def)
  have b: "MetaobjectUpsert ''nn_instagram_post'' ''bob-post-102''
             [(''data'', ''{id:102}''),
              (''images'', sample_stringify_ids [''gid://file/bob-post_102'']),
              (''caption'', ''No caption''), (''likes'', ''undefined''),
              (''comments'', ''undefined'')]
             (Inr (Some \<lparr>metaobject_id = None, upsert_userErrors = [''Value is invalid'']\<rparr>))
           \<in> set ?T"
    by (simp add: sync_defs io_defs sample_defs nat_toString.simps digit_def)
  have c: "upsert_userErrors \<lparr>metaobject_id = None, upsert_userErrors = [''Value is invalid'']\<rparr>
             \<noteq> []"
    by simp
  have d: "MetaobjectUpsert ''nn_instagram_post'' ''bob-post-101''
             [(''data'', ''{id:101}''),
              (''images'', sample_stringify_ids [''gid://file/bob-post_101'']),
              (''caption'', ''Sunset''), (''likes'', ''12''), (''comments'', ''3'')]
             (Inr (Some \<lparr>metaobject_id = Some ''gid://metaobject/bob-post-101'',
                          upsert_userErrors = []\<rparr>))
           \<in> set ?T"
    by (simp add: sync_defs io_defs sample_defs nat_toString.simps digit_def)
  have e: "''gid://metaobject/bob-post-101'' \<noteq> []" by simp
  from failed_upsert_is_left_out [OF a b c d e] a show ?thesis
    by (simp add: sync_defs io_defs sample_defs nat_toString.simps digit_def)
qed

text \<open>
  C4 as stated fails when something else throws. With the posts \<^verbatim>\<open>102\<close>, \<^verbatim>\<open>101\<close> and
  \<^verbatim>\<open>105\<close>, the store refuses the record of \<^verbatim>\<open>102\<close> with a user error, accepts the
  record of \<^verbatim>\<open>101\<close> and returns its identifier, and rejects the lookup of \<^verbatim>\<open>105\<close>: the
  run throws at that lookup and writes no list record at all. With the posts \<^verbatim>\<open>102\<close>,
  \<^verbatim>\<open>101\<close> and \<^verbatim>\<open>103\<close>, the record found for \<^verbatim>\<open>103\<close> has an \<^verbatim>\<open>images\<close> field that
  \<^verbatim>\<open>JSON.parse\<close> refuses: the run throws there, and again writes no list record.
\<close>

theorem thrown_error_leaves_no_list:
  "run (faulty_env (Some bob_row) (feed_of [bare_post, sunset_post, partial_post]))
     ''shop.example'' 1000 ()
   = (Inl (Error ''Throttled''),
      \<lparr>trace =
         [DbFindAccount ''shop.example'' (Inr (Some bob_row)),
          IgFetchMedia ''IGQ'' (Inr (feed_of [bare_post, sunset_post, partial_post])),
          IgFetchProfile ''IGQ'' (Inr bob_profile),
          MetaobjectByHandle ''nn_instagram_post'' ''bob-post-102'' (Inr None),
          FileCreate ''bob-post_102'' ''IMAGE'' ''https://cdn.example/102.jpg''
            (Inr (Some \<lparr>files = Some [''gid://file/bob-post_102''], file_userErrors = []\<rparr>)),
          UploadMediaFile ''https://cdn.example/102.jpg'' ''IMAGE'' ''bob-post_102''
            (Some \<lparr>files = Some [''gid://file/bob-post_102''], file_userErrors = []\<rparr>),
          MetaobjectUpsert ''nn_instagram_post'' ''bob-post-102''
            [(''data'', ''{id:102}''),
             (''images'', sample_stringify_ids [''gid://file/bob-post_102'']),
             (''caption'', ''No caption''), (''likes'', ''undefined''),
             (''comments'', ''undefined'')]
            (Inr (Some \<lparr>metaobject_id = None, upsert_userErrors = [''Value is invalid'']\<rparr>)),
          MetaobjectByHandle ''nn_instagram_post'' ''bob-post-101''
            (Inr (Some \<lparr>mo_id = ''gid://metaobject/bob-post-101'',
                         mo_handle = ''bob-post-101'',
                         mo_fields =
                           [(''caption'', ''Dawn''),
                            (''images'', sample_stringify_ids [''gid://file/bob-post_101''])]\<rparr>)),
          MetaobjectUpsert ''nn_instagram_post'' ''bob-post-101''
            [(''data'', ''{id:101}''),
             (''images'', sample_stringify_ids [''gid://file/bob-post_101'']),
             (''caption'', ''Sunset''), (''likes'', ''12''), (''comments'', ''3'')]
            (Inr (Some \<lparr>metaobject_id = Some ''gid://metaobject/bob-post-101'',
                         upsert_userErrors = []\<rparr>)),
          MetaobjectByHandle ''nn_instagram_post'' ''bob-post-105'' (Inl (Error ''Throttled''))],
       world = ()\<rparr>)
   \<and> run (faulty_env (Some bob_row) (feed_of [bare_post, sunset_post, album_post]))
     ''shop.example'' 1000 ()
   = (Inl (Error ''Unexpected token''),
      \<lparr>trace =
         [DbFindAccount ''shop.example'' (Inr (Some bob_row)),
          IgFetchMedia ''IGQ'' (Inr (feed_of [bare_post, sunset_post, album_post])),
          IgFetchProfile ''IGQ'' (Inr bob_profile),
          MetaobjectByHandle ''nn_instagram_post'' ''bob-post-102'' (Inr None),
          FileCreate ''bob-post_102'' ''IMAGE'' ''https://cdn.example/102.jpg''
            (Inr (Some \<lparr>files = Some [''gid://file/bob-post_102''], file_userErrors = []\<rparr>)),
          UploadMediaFile ''https://cdn.example/102.jpg'' ''IMAGE'' ''bob-post_102''
            (Some \<lparr>files = Some [''gid://file/bob-post_102''], file_userErrors = []\<rparr>),
          MetaobjectUpsert ''nn_instagram_post'' ''bob-post-102''
            [(''data'', ''{id:102}''),
             (''images'', sample_stringify_ids [''gid://file/bob-post_102'']),
             (''caption'', ''No caption''), (''likes'', ''undefined''),
             (''comments'', ''undefined'')]
            (Inr (Some \<lparr>metaobject_id = None, upsert_userErrors = [''Value is invalid'']\<rparr>)),
          MetaobjectByHandle ''nn_instagram_post'' ''bob-post-101''
            (Inr (Some \<lparr>mo_id = ''gid://metaobject/bob-post-101'',
                         mo_handle = ''bob-post-101'',
                         mo_fields =
                           [(''caption'', ''Dawn''),
                            (''images'', sample_stringify_ids [''gid://file/bob-post_101''])]\<rparr>)),
          MetaobjectUpsert ''nn_instagram_post'' ''bob-post-101''
            [(''data'', ''{id:101}''),
             (''images'', sample_stringify_ids [''gid://file/bob-post_101'']),
             (''caption'', ''Sunset''), (''likes'', ''12''), (''comments'', ''3'')]
            (Inr (Some \<lparr>metaobject_id = Some ''gid://metaobject/bob-post-101'',
                         upsert_userErrors = []\<rparr>)),
          MetaobjectByHandle ''nn_instagram_post'' ''bob-post-103''
            (Inr (Some \<lparr>mo_id = ''gid://metaobject/bob-post-103'',
                         mo_handle = ''bob-post-103'',
                         mo_fields = [(''images'', ''<html>'')]\<rparr>))],
       world = ()\<rparr>)"
  by (simp add: sync_defs io_defs sample_defs nat_toString.simps digit_def)

text \<open>
  C9, without an account switch. In a run in which no post was upserted successfully,
  \<^verbatim>\<open>upsertListMetaobject\<close> is not called. Unless the run observed an account switch (a
  stored username that is set and differs from the fetched one), it sends no delete
  either, so no list record is written or removed.
\<close>

theorem no_upsert_no_list_write:
  assumes "upserted_ids (trace (snd (run env shop now w))) = []"
  shows "filter is_list_upsert (trace (snd (run env shop now w))) = []
    \<and> (observed_switch (trace (snd (run env shop now w)))
        \<or> filter is_delete (trace (snd (run env shop now w))) = [])"
proof -
  let ?T = "trace (snd (run env shop now w))"
  let ?r = "fst (run env shop now w)"
  from run_traces [of env shop now w] have "run_outcome env shop ?r ?T" by simp
  then consider (early) "list_all is_fetch ?T"
    | (feed) row token igData userData posts rest where
        "?T = fetch_events shop row token igData userData @ rest"
        "feed_outcome env (row\<lparr>accessToken := token\<rparr>) igData
           (profile_username userData) (profile_name userData) posts ?r rest"
    unfolding run_outcome_def by blast
  then show ?thesis
  proof cases
    case early
    then show ?thesis
      by (auto simp add: filter_empty_conv list_all_iff dest: fetch_kind)
  next
    case feed
    let ?account = "row\<lparr>accessToken := token\<rparr>"
    let ?Y = "profile_username userData"
    let ?name = "profile_name userData"
    let ?fetch = "fetch_events shop row token igData userData"
    from feed_outcome_shape [OF feed(2)] obtain teardown update segments final where
      "feed_shape env ?account igData ?Y ?name posts ?r rest teardown update segments final"
      by blast
    then have shape:
      "rest = teardown @ update @ concat segments @ final"
      "list_all is_teardown_request teardown"
      "\<not> account_switch ?account ?Y \<longrightarrow> teardown = []"
      "list_all is_username_update update"
      "list_all is_per_post (concat segments)"
      "final = [] \<or>
       (\<exists>reply. final = [MetaobjectUpsert ''nn_instagram_list'' (?Y @ ''-feed-list'')
                    (list_fields env igData (upserted_ids (concat segments)) ?Y ?name) reply])"
      "upserted_ids (concat segments) = [] \<longrightarrow> final = []"
      unfolding feed_shape_def by simp_all
    have "upserted_ids ?T = upserted_ids (concat segments)"
      unfolding feed(1) shape(1)
      using fetch_events_kind shape(2,4,6) by (intro feed_upserted_ids) auto
    with assms shape(7) have final: "final = []" by simp
    define loop where "loop = concat segments"
    have loop: "list_all is_per_post loop" using shape(5) by (simp add: loop_def)
    have T: "?T = ?fetch @ teardown @ update @ loop"
      using feed(1) shape(1) final by (simp add: loop_def)
    have no_list: "filter is_list_upsert ?T = []"
      unfolding T using fetch_events_kind [of shop row token igData userData] shape(2,4) loop
      by (auto simp add: filter_empty_conv list_all_iff
          dest: fetch_kind teardown_kind update_kind per_post_kind)
    have "filter is_delete ?T = []" if "\<not> observed_switch ?T"
    proof -
      have "DbFindAccount shop (Inr (Some row)) \<in> set ?T"
        "IgFetchProfile token (Inr userData) \<in> set ?T"
        unfolding T by (simp_all add: fetch_events_def)
      with that have "\<not> account_switch ?account ?Y"
        unfolding observed_switch_def account_switch_def by auto
      with shape(3) have "teardown = []" by simp
      then show ?thesis
        unfolding T using fetch_events_kind [of shop row token igData userData] shape(4) loop
        by (auto simp add: filter_empty_conv list_all_iff
            dest: fetch_kind update_kind per_post_kind)
    qed
    with no_list show ?thesis by blast
  qed
qed

theorem no_upsert_no_list_write_witness:
  "upserted_ids
     (trace (snd (run (sample_env (Some bob_row) (feed_of [bare_post])) ''shop.example'' 1000 ())))
     = []
   \<and> filter is_list_upsert
       (trace (snd (run (sample_env (Some bob_row) (feed_of [bare_post])) ''shop.example'' 1000 ())))
     = []
   \<and> filter is_delete
       (trace (snd (run (sample_env (Some bob_row) (feed_of [bare_post])) ''shop.example'' 1000 ())))
     = []"
proof -
  let ?T = "trace (snd (run (sample_env (Some bob_row) (feed_of [bare_post])) ''shop.example'' 1000 ()))"
  have a: "upserted_ids ?T = []"
    by (simp add: sync_defs io_defs sample_defs)
  have b: "\<not> observed_switch ?T"
    by (simp add: observed_switch_def sync_defs io_defs sample_defs)
  from no_upsert_no_list_write [OF a] a b show ?thesis by simp
qed

text \<open>
  C9 as stated fails when the account was switched: in a run for \<^verbatim>\<open>bob\<close> over a shop
  that still holds \<^verbatim>\<open>alice\<close>'s data, in which the only post is refused by the store, no
  post is upserted and the list upsert is not sent, but the teardown has looked up the
  list record \<^verbatim>\<open>alice-feed-list\<close> and deleted it.
\<close>

theorem stale_list_is_deleted_on_switch:
  "upserted_ids
     (trace (snd (run (sample_env (Some alice_row) (feed_of [bare_post])) ''shop.example'' 1000 ())))
     = []
   \<and> MetaobjectByHandle ''nn_instagram_list'' ''alice-feed-list''
        (Inr (Some \<lparr>mo_id = ''gid://metaobject/alice-feed-list'',
                     mo_handle = ''alice-feed-list'', mo_fields = []\<rparr>))
      \<in> set (trace (snd (run (sample_env (Some alice_row) (feed_of [bare_post]))
                              ''shop.example'' 1000 ())))
   \<and> MetaobjectDelete ''gid://metaobject/alice-feed-list'' (Inr ())
      \<in> set (trace (snd (run (sample_env (Some alice_row) (feed_of [bare_post]))
                              ''shop.example'' 1000 ())))"
  by (simp add: sync_defs io_defs sample_defs)

end
